theory Spec2Isabelle
  imports Main "HOL-Library.AList"
begin

section \<open>Python values\<close>

text \<open>
  A Python \<open>str\<close> is a sequence of Unicode code points, so slicing (\<open>text[:180]\<close>) counts
  code points. A string is modelled as the list of its code points; \<open>str\<close> turns an ASCII
  literal into that list.
\<close>

type_synonym pystr = "nat list"

definition str :: "string \<Rightarrow> pystr" where
  "str s = map of_char s"

text \<open>
  What \<open>json.loads\<close> can return: \<open>None\<close>, \<open>bool\<close>, \<open>int\<close>, \<open>float\<close>, \<open>str\<close>, \<open>list\<close> and
  \<open>dict\<close> (keys in insertion order). Of a float only its truth value is ever inspected.
\<close>

datatype pyfloat = Finite int int | PosInf | NegInf | NaN

datatype json =
    JNull
  | JBool bool
  | JInt int
  | JFloat pyfloat
  | JStr pystr
  | JList "json list"
  | JDict "(pystr \<times> json) list"

datatype error =
    HTTPException nat pystr
  | AttributeError
  | TypeError
  | KeyError
  | ServiceError
  | StatementError

fun float_truthy :: "pyfloat \<Rightarrow> bool" where
  "float_truthy (Finite m e) = (m \<noteq> 0)"
| "float_truthy PosInf = True"
| "float_truthy NegInf = True"
| "float_truthy NaN = True"

text \<open>Python truthiness, as used by \<open>x or y\<close>, \<open>if x\<close> and \<open>not x\<close>.\<close>

fun truthy :: "json \<Rightarrow> bool" where
  "truthy JNull = False"
| "truthy (JBool b) = b"
| "truthy (JInt i) = (i \<noteq> 0)"
| "truthy (JFloat f) = float_truthy f"
| "truthy (JStr s) = (s \<noteq> [])"
| "truthy (JList xs) = (xs \<noteq> [])"
| "truthy (JDict kvs) = (kvs \<noteq> [])"

definition py_or :: "json \<Rightarrow> json \<Rightarrow> json" where
  "py_or a b = (if truthy a then a else b)"

text \<open>\<open>d.get(k, default)\<close> on a value known to be a dict.\<close>

definition dict_get :: "(pystr \<times> json) list \<Rightarrow> pystr \<Rightarrow> json \<Rightarrow> json" where
  "dict_get d k dflt = (case map_of d k of None \<Rightarrow> dflt | Some v \<Rightarrow> v)"

text \<open>\<open>x.get(k, default)\<close> on any value: only a dict has the method.\<close>

fun py_get :: "json \<Rightarrow> pystr \<Rightarrow> json \<Rightarrow> error + json" where
  "py_get (JDict d) k dflt = Inr (dict_get d k dflt)"
| "py_get _ k dflt = Inl AttributeError"

text \<open>Sequencing of calls that may raise: the first exception ends the computation.\<close>

definition ebind :: "error + 'a \<Rightarrow> ('a \<Rightarrow> error + 'b) \<Rightarrow> error + 'b" where
  "ebind m f = (case m of Inl e \<Rightarrow> Inl e | Inr x \<Rightarrow> f x)"

subsection \<open>Strings\<close>

definition lower_ascii :: "nat \<Rightarrow> nat" where
  "lower_ascii c = (if 65 \<le> c \<and> c \<le> 90 then c + 32 else c)"

fun startswith :: "pystr \<Rightarrow> pystr \<Rightarrow> bool" where
  "startswith s [] = True"
| "startswith [] (p # ps) = False"
| "startswith (c # cs) (p # ps) = (c = p \<and> startswith cs ps)"

text \<open>\<open>sub in s\<close> for strings.\<close>

fun contains :: "pystr \<Rightarrow> pystr \<Rightarrow> bool" where
  "contains sub [] = (sub = [])"
| "contains sub (c # cs) = (startswith (c # cs) sub \<or> contains sub cs)"

fun join_strs :: "pystr \<Rightarrow> pystr list \<Rightarrow> pystr" where
  "join_strs sep [] = []"
| "join_strs sep [x] = x"
| "join_strs sep (x # y # ys) = x @ sep @ join_strs sep (y # ys)"

fun strs_of :: "json list \<Rightarrow> pystr list option" where
  "strs_of [] = Some []"
| "strs_of (JStr s # vs) = (case strs_of vs of None \<Rightarrow> None | Some ss \<Rightarrow> Some (s # ss))"
| "strs_of (_ # vs) = None"

text \<open>
  \<open>sep.join(v)\<close>: \<open>v\<close> must be iterable and every item a \<open>str\<close>. A list gives its items,
  a string its characters, a dict its keys; anything else, or a non-string item, is a
  \<open>TypeError\<close>.
\<close>

fun py_join :: "pystr \<Rightarrow> json \<Rightarrow> error + pystr" where
  "py_join sep (JList vs) =
     (case strs_of vs of None \<Rightarrow> Inl TypeError | Some ss \<Rightarrow> Inr (join_strs sep ss))"
| "py_join sep (JStr s) = Inr (join_strs sep (map (\<lambda>c. [c]) s))"
| "py_join sep (JDict d) = Inr (join_strs sep (map fst d))"
| "py_join sep _ = Inl TypeError"

subsection \<open>Dates\<close>

text \<open>
  A \<open>datetime\<close>; \<open>tzinfo\<close> is the UTC offset in seconds of an aware value and \<open>None\<close> for a
  naive one.
\<close>

record datetime =
  year :: nat
  month :: nat
  day :: nat
  hour :: nat
  minute :: nat
  second :: nat
  microsecond :: nat
  tzinfo :: "int option"

fun dec :: "nat \<Rightarrow> pystr" where
  "dec n = (if n < 10 then [48 + n] else dec (n div 10) @ [48 + n mod 10])"

declare dec.simps [simp del]

text \<open>\<open>'%0wd' % n\<close>: decimal, padded with zeros to at least \<open>w\<close> digits.\<close>

definition zpad :: "nat \<Rightarrow> nat \<Rightarrow> pystr" where
  "zpad w n = replicate (w - length (dec n)) 48 @ dec n"

definition utcoffset_str :: "int \<Rightarrow> pystr" where
  "utcoffset_str off =
     (let a = nat \<bar>off\<bar> in
      (if off < 0 then str ''-'' else str ''+'')
      @ zpad 2 (a div 3600) @ str '':'' @ zpad 2 (a mod 3600 div 60)
      @ (if a mod 60 \<noteq> 0 then str '':'' @ zpad 2 (a mod 60) else []))"

text \<open>\<open>datetime.isoformat()\<close>.\<close>

definition isoformat :: "datetime \<Rightarrow> pystr" where
  "isoformat d =
     zpad 4 (year d) @ str ''-'' @ zpad 2 (month d) @ str ''-'' @ zpad 2 (day d)
     @ str ''T'' @ zpad 2 (hour d) @ str '':'' @ zpad 2 (minute d) @ str '':'' @ zpad 2 (second d)
     @ (if microsecond d \<noteq> 0 then str ''.'' @ zpad 6 (microsecond d) else [])
     @ (case tzinfo d of None \<Rightarrow> [] | Some off \<Rightarrow> utcoffset_str off)"

subsection \<open>Columns\<close>

text \<open>
  The value of an attribute of a row of \<open>hcp_interactions\<close>, a \<open>datetime\<close> or a plain value,
  and the column types that the class \<open>Interaction\<close> declares.
\<close>

datatype attr = Json json | Datetime datetime

datatype coltype = Integer | String nat | Text | DateTime

section \<open>Configuration and the libraries the program calls\<close>

text \<open>
  The loaded module and what it calls but does not define. \<open>GROQ_API_KEY\<close>, \<open>GROQ_MODEL\<close> and
  \<open>client\<close> are the globals that the module binds once, when it is loaded. A completion
  client, given model, system instruction and user prompt, raises (\<open>None\<close>) or answers with
  a content that may be \<open>None\<close>. \<open>json_loads\<close> is \<open>None\<close> where \<open>json.loads\<close> raises.
  \<open>fromisoformat\<close> is \<open>None\<close> where \<open>datetime.fromisoformat\<close> raises. \<open>utcnow\<close> is the reading
  of the clock. \<open>unicode_lower\<close> is \<open>str.lower\<close> on strings that are not pure ASCII,
  \<open>builtin_str\<close> is \<open>str(v)\<close> for a value that is not a string.

  The last three fields are the database engine behind the session. \<open>store_text t v\<close> is the
  text that a column of type \<open>t\<close> (\<open>String n\<close> or \<open>Text\<close>) holds after a commit that binds the
  value \<open>v\<close> to it, and \<open>None\<close> when the engine refuses \<open>v\<close> (an engine may store the number
  \<open>5\<close> as \<open>'5'\<close>, refuse a list, refuse or cut a string longer than the column);
  \<open>store_datetime\<close> and \<open>store_integer\<close> are the same for a \<open>DateTime\<close> and an \<open>Integer\<close>
  column.
\<close>

type_synonym completion = "pystr \<Rightarrow> pystr \<Rightarrow> pystr \<Rightarrow> pystr option option"

record env =
  GROQ_API_KEY :: pystr
  GROQ_MODEL :: pystr
  client :: "completion option"
  json_loads :: "pystr \<Rightarrow> json option"
  json_dumps :: "json \<Rightarrow> pystr"
  fromisoformat :: "pystr \<Rightarrow> datetime option"
  utcnow :: datetime
  unicode_lower :: "pystr \<Rightarrow> pystr"
  builtin_str :: "json \<Rightarrow> pystr"
  store_text :: "coltype \<Rightarrow> attr \<Rightarrow> pystr option"
  store_datetime :: "attr \<Rightarrow> datetime option"
  store_integer :: "attr \<Rightarrow> int option"

text \<open>\<open>os.getenv(name, default)\<close> on the variables \<open>environ\<close> of the process.\<close>

definition os_getenv :: "(pystr \<Rightarrow> pystr option) \<Rightarrow> pystr \<Rightarrow> pystr \<Rightarrow> pystr" where
  "os_getenv environ name dflt = (case environ name of None \<Rightarrow> dflt | Some v \<Rightarrow> v)"

text \<open>
  Loading the module, which happens once, when the process starts:
  \<open>GROQ_API_KEY = os.getenv("GROQ_API_KEY", "")\<close>,
  \<open>GROQ_MODEL = os.getenv("GROQ_MODEL", "gemma2-9b-it")\<close> and
  \<open>client = Groq(api_key=GROQ_API_KEY) if GROQ_API_KEY else None\<close>. A missing key does not
  stop the module from loading (\<open>if not GROQ_API_KEY: pass\<close>). \<open>Groq key\<close> is the completion
  service reached with that key; the libraries, the clock and the database engine are
  those of \<open>lib\<close>. Nothing reads the variables of the process after this.
\<close>

definition startup :: "(pystr \<Rightarrow> pystr option) \<Rightarrow> (pystr \<Rightarrow> completion) \<Rightarrow> env \<Rightarrow> env" where
  "startup environ Groq lib =
     (let key = os_getenv environ (str ''GROQ_API_KEY'') []
      in lib\<lparr>GROQ_API_KEY := key,
             GROQ_MODEL := os_getenv environ (str ''GROQ_MODEL'') (str ''gemma2-9b-it''),
             client := (if key \<noteq> [] then Some (Groq key) else None)\<rparr>)"

definition lower :: "env \<Rightarrow> pystr \<Rightarrow> pystr" where
  "lower env s = (if list_all (\<lambda>c. c < 128) s then map lower_ascii s else unicode_lower env s)"

text \<open>The value of \<open>{v}\<close> inside an f-string.\<close>

definition py_format :: "env \<Rightarrow> json \<Rightarrow> pystr" where
  "py_format env v = (case v of JStr s \<Rightarrow> s | _ \<Rightarrow> builtin_str env v)"

section \<open>The completion client\<close>

definition groq_chat :: "env \<Rightarrow> pystr \<Rightarrow> pystr \<Rightarrow> pystr \<Rightarrow> error + pystr" where
  "groq_chat env system user model =
     (case client env of
        None \<Rightarrow> Inl (HTTPException 500 (str ''GROQ_API_KEY not set on backend''))
      | Some c \<Rightarrow>
          (case c model system user of
             None \<Rightarrow> Inl ServiceError
           | Some content \<Rightarrow> Inr (case content of None \<Rightarrow> [] | Some s \<Rightarrow> s)))"

section \<open>Tools\<close>

definition nba_message :: pystr where
  "nba_message =
     str ''Send a balanced follow-up message with approved materials and confirm next meeting date.''"

definition nba_visit :: pystr where
  "nba_visit =
     str ''Schedule a follow-up visit/call and share approved clinical summary + address any objections.''"

text \<open>
  \<open>(extracted.get("channel") or "").lower()\<close>: a truthy channel that is not a string has no
  \<open>lower\<close> method.
\<close>

definition tool_suggest_next_best_action :: "env \<Rightarrow> json \<Rightarrow> error + json" where
  "tool_suggest_next_best_action env extracted =
     ebind (py_get extracted (str ''channel'') JNull) (\<lambda>c.
       case py_or c (JStr []) of
         JStr s \<Rightarrow>
           (let channel = lower env s;
                nba = (if channel \<in> set [str ''email'', str ''whatsapp'']
                       then nba_message else nba_visit)
            in Inr (JDict [(str ''next_best_action'', JStr nba)]))
       | _ \<Rightarrow> Inl AttributeError)"

definition compliance_system :: pystr where
  \<open>compliance_system =
     str ''You are a pharma compliance checker. Return strict JSON only:\<newline>''
     @ str ''{ "flags": [..], "severity": "low|medium|high", "notes": "..." }.\<newline>''
     @ str ''Flags examples: off_label, promotion_to_patient, safety_missing, unbalanced_claim, competitor_bashing, pii_risk.\<newline>''\<close>

definition compliance_prompt :: "pystr \<Rightarrow> pystr" where
  "compliance_prompt text = str ''Text:\<newline>'' @ text @ str ''\<newline>Return JSON only.''"

definition tool_compliance_check_llm :: "env \<Rightarrow> pystr \<Rightarrow> error + json" where
  "tool_compliance_check_llm env text =
     ebind (groq_chat env compliance_system (compliance_prompt text) (GROQ_MODEL env)) (\<lambda>out.
       case json_loads env out of
         Some v \<Rightarrow> Inr v
       | None \<Rightarrow>
           Inr (JDict [(str ''flags'', JList [JStr (str ''parse_error'')]),
                       (str ''severity'', JStr (str ''low'')),
                       (str ''notes'', JStr (take 400 out))]))"

definition extract_system :: pystr where
  \<open>extract_system =
     str ''You are an expert life-sciences CRM assistant for field reps.\<newline>''
     @ str ''Return STRICT JSON only with keys:\<newline>''
     @ str ''{ "summary":"...", "entities": { "hcp_name":"", "specialty":"", "organization":"", "channel":"", ''
     @ str ''"purpose":"", "products_discussed":"", "key_points":"", "outcome":"", "next_steps":"", "follow_up_date":"" } }\<newline>''
     @ str ''Rules:\<newline>''
     @ str ''- Keep summary <= 3 lines.\<newline>''
     @ str ''- If a field is missing, keep it empty.\<newline>''
     @ str ''- channel must be one of: in_person, call, video, email, whatsapp, other.\<newline>''
     @ str ''- follow_up_date should be YYYY-MM-DD if possible.\<newline>''\<close>

definition extract_prompt :: "pystr \<Rightarrow> pystr" where
  "extract_prompt text = str ''Interaction text:\<newline>'' @ text @ str ''\<newline>Return JSON only.''"

definition tool_summarize_and_extract :: "env \<Rightarrow> pystr \<Rightarrow> error + json" where
  "tool_summarize_and_extract env text =
     ebind (groq_chat env extract_system (extract_prompt text) (GROQ_MODEL env)) (\<lambda>out.
       case json_loads env out of
         Some v \<Rightarrow> Inr v
       | None \<Rightarrow>
           Inr (JDict [(str ''summary'', JStr (take 180 text)),
                       (str ''entities'', JDict [])]))"

section \<open>The chat pipeline\<close>

text \<open>
  \<open>AgentState\<close> is a \<open>TypedDict\<close> with \<open>total=False\<close>: every key may be absent.
\<close>

record AgentState =
  thread_id :: "pystr option"
  user_message :: "pystr option"
  intent :: "pystr option"
  extracted :: "json option"
  compliance :: "json option"
  assistant_message :: "pystr option"

text \<open>\<open>state.get(k)\<close> for a key that may be absent.\<close>

definition state_get :: "json option \<Rightarrow> json" where
  "state_get v = (case v of None \<Rightarrow> JNull | Some x \<Rightarrow> x)"

definition node_route_intent :: "env \<Rightarrow> AgentState \<Rightarrow> error + AgentState" where
  "node_route_intent env state =
     (case user_message state of
        None \<Rightarrow> Inl KeyError
      | Some m \<Rightarrow>
          (let text = lower env m in
           if contains (str ''edit'') text \<or> contains (str ''change'') text
              \<or> contains (str ''update'') text
           then Inr (state\<lparr>intent := Some (str ''edit'')\<rparr>)
           else Inr (state\<lparr>intent := Some (str ''log'')\<rparr>)))"

text \<open>The dict literal \<open>draft\<close> of \<open>node_extract\<close>, for an \<open>entities\<close> that is a dict.\<close>

definition draft_of :: "env \<Rightarrow> (pystr \<times> json) list \<Rightarrow> json \<Rightarrow> pystr \<Rightarrow> (pystr \<times> json) list" where
  "draft_of env entities summary msg =
     [(str ''hcp_name'', dict_get entities (str ''hcp_name'') (JStr [])),
      (str ''specialty'', dict_get entities (str ''specialty'') (JStr [])),
      (str ''organization'', dict_get entities (str ''organization'') (JStr [])),
      (str ''interaction_datetime'', JStr (isoformat (utcnow env))),
      (str ''channel'',
         py_or (dict_get entities (str ''channel'') (JStr (str ''in_person'')))
               (JStr (str ''in_person''))),
      (str ''purpose'', dict_get entities (str ''purpose'') (JStr [])),
      (str ''products_discussed'', dict_get entities (str ''products_discussed'') (JStr [])),
      (str ''key_points'', dict_get entities (str ''key_points'') (JStr [])),
      (str ''outcome'', dict_get entities (str ''outcome'') (JStr [])),
      (str ''next_steps'', dict_get entities (str ''next_steps'') (JStr [])),
      (str ''follow_up_date'', dict_get entities (str ''follow_up_date'') (JStr [])),
      (str ''raw_notes'', JStr msg),
      (str ''ai_summary'', summary),
      (str ''ai_entities_json'', JStr (json_dumps env (JDict entities))),
      (str ''compliance_flags_json'', JStr [])]"

text \<open>The keys of \<open>draft\<close> that are copied from \<open>entities\<close> with the default \<open>""\<close>.\<close>

definition entity_fields :: "pystr list" where
  "entity_fields =
     [str ''hcp_name'', str ''specialty'', str ''organization'', str ''purpose'',
      str ''products_discussed'', str ''key_points'', str ''outcome'', str ''next_steps'',
      str ''follow_up_date'']"

text \<open>
  \<open>entities.get\<close> raises \<open>AttributeError\<close> when \<open>entities\<close> is a truthy value that is not a
  dict, and so does \<open>result.get\<close> when the parsed reply is not a dict.
\<close>

definition node_extract :: "env \<Rightarrow> AgentState \<Rightarrow> error + AgentState" where
  "node_extract env state =
     (case user_message state of
        None \<Rightarrow> Inl KeyError
      | Some msg \<Rightarrow>
          ebind (tool_summarize_and_extract env msg) (\<lambda>result.
          ebind (py_get result (str ''entities'') JNull) (\<lambda>e.
          ebind (py_get result (str ''summary'') JNull) (\<lambda>s.
            (let entities = py_or e (JDict []); summary = py_or s (JStr []) in
             case entities of
               JDict ents \<Rightarrow>
                 Inr (state\<lparr>extracted :=
                        Some (JDict [(str ''draft'', JDict (draft_of env ents summary msg))])\<rparr>)
             | _ \<Rightarrow> Inl AttributeError)))))"

text \<open>\<open>(state.get("extracted") or {}).get("draft") or {}\<close>.\<close>

definition state_draft :: "AgentState \<Rightarrow> error + json" where
  "state_draft state =
     ebind (py_get (py_or (state_get (extracted state)) (JDict [])) (str ''draft'') JNull)
       (\<lambda>d. Inr (py_or d (JDict [])))"

definition node_compliance :: "env \<Rightarrow> AgentState \<Rightarrow> error + AgentState" where
  "node_compliance env state =
     ebind (state_draft state) (\<lambda>draft.
     ebind (py_get draft (str ''raw_notes'') (JStr [])) (\<lambda>notes.
     ebind (py_get draft (str ''ai_summary'') (JStr [])) (\<lambda>summary.
     ebind (tool_compliance_check_llm env
              (py_format env notes @ str ''\<newline>Summary: '' @ py_format env summary)) (\<lambda>c.
       case draft of
         JDict d \<Rightarrow>
           (let draft' = JDict (AList.update (str ''compliance_flags_json'')
                                  (JStr (json_dumps env c)) d) in
            case extracted state of
              None \<Rightarrow> Inl KeyError
            | Some (JDict ex) \<Rightarrow>
                Inr (state\<lparr>compliance := Some c,
                           extracted := Some (JDict (AList.update (str ''draft'') draft' ex))\<rparr>)
            | Some _ \<Rightarrow> Inl TypeError)
       | _ \<Rightarrow> Inl TypeError))))"

definition ack_line :: pystr where
  "ack_line = [9989] @ str '' I extracted a draft interaction and filled the form fields.\<newline>''"

definition nba_line :: "pystr \<Rightarrow> pystr" where
  "nba_line nba = [8226] @ str '' Next best action: '' @ nba @ str ''\<newline>''"

definition warning_line :: "pystr \<Rightarrow> pystr \<Rightarrow> pystr" where
  "warning_line sev joined =
     [9888, 65039] @ str '' Compliance flags ('' @ sev @ str ''): '' @ joined @ str ''\<newline>''"

definition closing_line :: pystr where
  "closing_line =
     str ''If this looks correct, click **Save Interaction** in the UI. If not, edit the fields and save.''"

definition node_respond :: "env \<Rightarrow> AgentState \<Rightarrow> error + AgentState" where
  "node_respond env state =
     ebind (state_draft state) (\<lambda>draft.
     ebind (tool_suggest_next_best_action env draft) (\<lambda>r.
     ebind (py_get r (str ''next_best_action'') (JStr [])) (\<lambda>nba.
     ebind (py_get (py_or (state_get (compliance state)) (JDict [])) (str ''flags'') JNull) (\<lambda>f.
     ebind (py_get (py_or (state_get (compliance state)) (JDict [])) (str ''severity'') JNull) (\<lambda>s.
       (let flags = py_or f (JList []);
            sev = py_or s (JStr (str ''low''));
            msg = ack_line @ nba_line (py_format env nba)
        in ebind (if truthy flags \<and> flags \<noteq> JList [JStr (str ''parse_error'')]
                  then ebind (py_join (str '', '') flags)
                         (\<lambda>joined. Inr (msg @ warning_line (py_format env sev) joined))
                  else Inr msg)
             (\<lambda>msg'. Inr (state\<lparr>assistant_message := Some (msg' @ closing_line)\<rparr>))))))))"

text \<open>The compiled graph: \<open>route_intent\<close>, \<open>extract\<close>, \<open>compliance\<close>, \<open>respond\<close>, in this order.\<close>

definition agent_app_invoke :: "env \<Rightarrow> AgentState \<Rightarrow> error + AgentState" where
  "agent_app_invoke env state =
     ebind (node_route_intent env state) (\<lambda>s1.
     ebind (node_extract env s1) (\<lambda>s2.
     ebind (node_compliance env s2) (\<lambda>s3.
     node_respond env s3)))"

record ChatReq =
  req_thread_id :: "pystr option"
  message :: pystr

definition agent_chat :: "env \<Rightarrow> ChatReq \<Rightarrow> error + json" where
  "agent_chat env req =
     ebind (agent_app_invoke env
              \<lparr>thread_id = Some (case req_thread_id req of
                                   None \<Rightarrow> str ''default''
                                 | Some t \<Rightarrow> if t \<noteq> [] then t else str ''default''),
               user_message = Some (message req),
               intent = None, extracted = None, compliance = None,
               assistant_message = None\<rparr>) (\<lambda>out.
     ebind (py_get (py_or (state_get (extracted out)) (JDict [])) (str ''draft'') JNull) (\<lambda>draft.
       Inr (JDict [(str ''assistant_message'',
                      JStr (case assistant_message out of None \<Rightarrow> str ''Done.'' | Some m \<Rightarrow> m)),
                   (str ''draft_interaction'', py_or draft (JDict []))])))"

definition health :: "env \<Rightarrow> json" where
  "health env = JDict [(str ''ok'', JBool True), (str ''model'', JStr (GROQ_MODEL env))]"

subsection \<open>Comparing two runs\<close>

text \<open>
  The response of \<open>agent_chat\<close> without the \<open>interaction_datetime\<close> of its draft, and two
  pipeline states that agree on everything but that entry of their draft.
\<close>

definition undated :: "json \<Rightarrow> json" where
  "undated response =
     (case response of
        JDict [(k1, m), (k2, JDict draft)] \<Rightarrow>
          JDict [(k1, m), (k2, JDict (AList.delete (str ''interaction_datetime'') draft))]
      | _ \<Rightarrow> response)"

definition agree_but_datetime :: "AgentState \<Rightarrow> AgentState \<Rightarrow> bool" where
  "agree_but_datetime s1 s2 =
     (\<exists>d1 d2. extracted s1 = Some (JDict [(str ''draft'', JDict d1)])
            \<and> extracted s2 = Some (JDict [(str ''draft'', JDict d2)])
            \<and> AList.delete (str ''interaction_datetime'') d1
                = AList.delete (str ''interaction_datetime'') d2
            \<and> s1\<lparr>extracted := None\<rparr> = s2\<lparr>extracted := None\<rparr>)"

section \<open>The record store\<close>

text \<open>
  A row of \<open>hcp_interactions\<close> is the ORM object: its attributes by name, each holding a
  \<open>datetime\<close> or a plain value. \<open>setattr\<close> by name is an update of that association.
  The table is the list of its rows as the database holds them.
\<close>

type_synonym Interaction = "(pystr \<times> attr) list"

definition getattr :: "Interaction \<Rightarrow> pystr \<Rightarrow> attr" where
  "getattr row k = (case map_of row k of None \<Rightarrow> Json JNull | Some v \<Rightarrow> v)"

definition setattr :: "Interaction \<Rightarrow> pystr \<Rightarrow> attr \<Rightarrow> Interaction" where
  "setattr row k v = AList.update k v row"

text \<open>\<open>db.query(Interaction).filter(Interaction.id == i).first()\<close>, as a position in the table.\<close>

fun find_row :: "int \<Rightarrow> Interaction list \<Rightarrow> nat option" where
  "find_row i [] = None"
| "find_row i (r # rs) =
     (if getattr r (str ''id'') = Json (JInt i) then Some 0
      else map_option Suc (find_row i rs))"

definition allowed :: "pystr list" where
  "allowed =
     [str ''hcp_name'', str ''specialty'', str ''organization'', str ''interaction_datetime'',
      str ''channel'', str ''purpose'', str ''products_discussed'', str ''key_points'',
      str ''outcome'', str ''next_steps'', str ''follow_up_date'', str ''raw_notes'',
      str ''ai_summary'', str ''ai_entities_json'', str ''compliance_flags_json'']"

text \<open>\<open>v.replace("Z", "+00:00")\<close>.\<close>

definition replace_Z :: "pystr \<Rightarrow> pystr" where
  "replace_Z s = concat (map (\<lambda>c. if c = 90 then str ''+00:00'' else [c]) s)"

text \<open>\<open>v if v is not None else ""\<close>.\<close>

definition none_to_empty :: "json \<Rightarrow> json" where
  "none_to_empty v = (if v \<noteq> JNull then v else JStr [])"

text \<open>One round of the loop over \<open>patch.items()\<close>.\<close>

definition patch_item :: "env \<Rightarrow> pystr \<Rightarrow> json \<Rightarrow> Interaction \<Rightarrow> Interaction" where
  "patch_item env k v row =
     (if k \<notin> set allowed then row
      else if k = str ''interaction_datetime'' then
        (case v of
           JStr s \<Rightarrow>
             (case fromisoformat env (replace_Z s) of
                Some vdt \<Rightarrow> setattr row k (Datetime (vdt\<lparr>tzinfo := None\<rparr>))
              | None \<Rightarrow> row)
         | _ \<Rightarrow> setattr row k (Json (none_to_empty v)))
      else setattr row k (Json (none_to_empty v)))"

fun patch_row :: "env \<Rightarrow> (pystr \<times> json) list \<Rightarrow> Interaction \<Rightarrow> Interaction" where
  "patch_row env [] row = row"
| "patch_row env ((k, v) # kvs) row = patch_row env kvs (patch_item env k v row)"

text \<open>The columns of the class \<open>Interaction\<close>.\<close>

definition columns :: "(pystr \<times> coltype) list" where
  "columns =
     [(str ''id'', Integer),
      (str ''hcp_name'', String 255),
      (str ''specialty'', String 255),
      (str ''organization'', String 255),
      (str ''interaction_datetime'', DateTime),
      (str ''channel'', String 50),
      (str ''purpose'', String 255),
      (str ''products_discussed'', String 255),
      (str ''key_points'', Text),
      (str ''outcome'', Text),
      (str ''next_steps'', Text),
      (str ''follow_up_date'', String 50),
      (str ''raw_notes'', Text),
      (str ''ai_summary'', Text),
      (str ''ai_entities_json'', Text),
      (str ''compliance_flags_json'', Text),
      (str ''created_at'', DateTime),
      (str ''updated_at'', DateTime)]"

text \<open>
  What a column of type \<open>t\<close> holds after a commit that binds the value \<open>v\<close> to it, \<open>None\<close> when
  the statement fails. Every column takes \<open>None\<close> (as \<open>NULL\<close>), a \<open>DateTime\<close> column takes a
  \<open>datetime\<close> and refuses the empty string, which is no date, a \<open>String\<close> or \<open>Text\<close> column
  takes the empty string, an \<open>Integer\<close> column takes an integer. What becomes of any other
  value is up to the database engine.
\<close>

definition bind_value :: "env \<Rightarrow> coltype \<Rightarrow> attr \<Rightarrow> attr option" where
  "bind_value env t v =
     (if v = Json JNull then Some v
      else case t of
        DateTime \<Rightarrow>
          (case v of
             Datetime d \<Rightarrow> Some v
           | Json j \<Rightarrow> if j = JStr [] then None
                      else map_option Datetime (store_datetime env v))
      | Integer \<Rightarrow>
          (case v of
             Json (JInt i) \<Rightarrow> Some v
           | _ \<Rightarrow> map_option (\<lambda>i. Json (JInt i)) (store_integer env v))
      | _ \<Rightarrow>
          if v = Json (JStr []) then Some v
          else map_option (\<lambda>s. Json (JStr s)) (store_text env t v))"

text \<open>
  \<open>db.commit()\<close> for one row of the session: \<open>old\<close> is the row as the database holds it,
  \<open>new\<close> the attributes of the object. The \<open>UPDATE\<close> statement carries the attributes whose
  value has changed; when a column refuses its value the statement fails, \<open>commit\<close> raises
  and nothing is written (\<open>None\<close>). Otherwise the result is the row as stored.
\<close>

fun flush :: "env \<Rightarrow> (pystr \<times> coltype) list \<Rightarrow> Interaction \<Rightarrow> Interaction \<Rightarrow> Interaction option" where
  "flush env [] old new = Some old"
| "flush env ((k, t) # cols) old new =
     (case flush env cols old new of
        None \<Rightarrow> None
      | Some stored \<Rightarrow>
          if getattr new k = getattr old k then Some stored
          else (case bind_value env t (getattr new k) of
                  None \<Rightarrow> None
                | Some v \<Rightarrow> Some (setattr stored k v)))"

text \<open>
  The result is the exception raised, with the table as it was, or the table after the
  call and the value returned.
\<close>

definition tool_edit_interaction ::
    "env \<Rightarrow> Interaction list \<Rightarrow> int \<Rightarrow> (pystr \<times> json) list
       \<Rightarrow> error + Interaction list \<times> json" where
  "tool_edit_interaction env db interaction_id patch =
     (case find_row interaction_id db of
        None \<Rightarrow> Inr (db, JDict [(str ''ok'', JBool False), (str ''error'', JStr (str ''not_found''))])
      | Some i \<Rightarrow>
          (let row = patch_row env patch (db ! i);
               row' = setattr row (str ''updated_at'') (Datetime (utcnow env))
           in (case flush env columns (db ! i) row' of
                 None \<Rightarrow> Inl StatementError
               | Some stored \<Rightarrow> Inr (db[i := stored], JDict [(str ''ok'', JBool True)]))))"

text \<open>\<open>a.isoformat() if a else None\<close>.\<close>

definition iso_or_none :: "attr \<Rightarrow> error + attr" where
  "iso_or_none a =
     (case a of
        Datetime d \<Rightarrow> Inr (Json (JStr (isoformat d)))
      | Json v \<Rightarrow> if truthy v then Inl AttributeError else Inr (Json JNull))"

definition to_dict :: "Interaction \<Rightarrow> error + (pystr \<times> attr) list" where
  "to_dict row =
     ebind (iso_or_none (getattr row (str ''interaction_datetime''))) (\<lambda>idt.
     ebind (iso_or_none (getattr row (str ''created_at''))) (\<lambda>cr.
     ebind (iso_or_none (getattr row (str ''updated_at''))) (\<lambda>up.
       Inr [(str ''id'', getattr row (str ''id'')),
            (str ''hcp_name'', getattr row (str ''hcp_name'')),
            (str ''specialty'', getattr row (str ''specialty'')),
            (str ''organization'', getattr row (str ''organization'')),
            (str ''interaction_datetime'', idt),
            (str ''channel'', getattr row (str ''channel'')),
            (str ''purpose'', getattr row (str ''purpose'')),
            (str ''products_discussed'', getattr row (str ''products_discussed'')),
            (str ''key_points'', getattr row (str ''key_points'')),
            (str ''outcome'', getattr row (str ''outcome'')),
            (str ''next_steps'', getattr row (str ''next_steps'')),
            (str ''follow_up_date'', getattr row (str ''follow_up_date'')),
            (str ''raw_notes'', getattr row (str ''raw_notes'')),
            (str ''ai_summary'', getattr row (str ''ai_summary'')),
            (str ''ai_entities_json'', getattr row (str ''ai_entities_json'')),
            (str ''compliance_flags_json'', getattr row (str ''compliance_flags_json'')),
            (str ''created_at'', cr),
            (str ''updated_at'', up)])))"

text \<open>
  The endpoint \<open>PUT /api/interactions/{interaction_id}\<close>: the table after the call, and
  the exception raised or the value returned under \<open>item\<close>.
\<close>

definition edit_interaction ::
    "env \<Rightarrow> Interaction list \<Rightarrow> int \<Rightarrow> (pystr \<times> json) list
       \<Rightarrow> Interaction list \<times> (error + (pystr \<times> attr) list)" where
  "edit_interaction env db interaction_id patch =
     (case tool_edit_interaction env db interaction_id patch of
        Inl e \<Rightarrow> (db, Inl e)
      | Inr (db', ok) \<Rightarrow>
          (db',
           ebind (py_get ok (str ''ok'') JNull) (\<lambda>v.
             if \<not> truthy v then Inl (HTTPException 404 (str ''Interaction not found''))
             else (case find_row interaction_id db' of
                     None \<Rightarrow> Inl AttributeError
                   | Some i \<Rightarrow> to_dict (db' ! i)))))"

section \<open>Stubs for concrete runs\<close>

text \<open>
  A completion service that answers every request with the same text, and a process
  started around it with the variable \<open>GROQ_API_KEY\<close> set to \<open>key\<close>: \<open>loads\<close> plays
  \<open>json.loads\<close>, \<open>now\<close> is the clock reading. The database engine of the stub stores a
  string as it is and refuses every other value that \<open>bind_value\<close> leaves to it.
\<close>

definition stub_completion :: "pystr \<Rightarrow> completion" where
  "stub_completion reply = (\<lambda>model system user. Some (Some reply))"

definition stub_lib :: "(pystr \<Rightarrow> json option) \<Rightarrow> datetime \<Rightarrow> env" where
  "stub_lib loads now =
     \<lparr>GROQ_API_KEY = [], GROQ_MODEL = [], client = None,
      json_loads = loads, json_dumps = (\<lambda>v. str ''<json>''),
      fromisoformat = (\<lambda>s. None), utcnow = now,
      unicode_lower = (\<lambda>s. s), builtin_str = (\<lambda>v. str ''<value>''),
      store_text = (\<lambda>t v. case v of Json (JStr s) \<Rightarrow> Some s | _ \<Rightarrow> None),
      store_datetime = (\<lambda>v. None), store_integer = (\<lambda>v. None)\<rparr>"

definition stub_env :: "pystr \<Rightarrow> pystr \<Rightarrow> (pystr \<Rightarrow> json option) \<Rightarrow> datetime \<Rightarrow> env" where
  "stub_env key reply loads now =
     startup (\<lambda>name. if name = str ''GROQ_API_KEY'' then Some key else None)
       (\<lambda>k. stub_completion reply) (stub_lib loads now)"

definition noon :: datetime where
  "noon = \<lparr>year = 2024, month = 5, day = 17, hour = 12, minute = 0, second = 0,
           microsecond = 0, tzinfo = None\<rparr>"

text \<open>A later clock reading, a stored row and a patch.\<close>

definition later :: datetime where
  "later = noon\<lparr>minute := 5\<rparr>"

definition sample_row :: "int \<Rightarrow> Interaction" where
  "sample_row i =
     [(str ''id'', Json (JInt i)),
      (str ''hcp_name'', Json (JStr (str ''Dr. Smith''))),
      (str ''specialty'', Json (JStr (str ''cardiology''))),
      (str ''organization'', Json (JStr [])),
      (str ''interaction_datetime'', Datetime noon),
      (str ''channel'', Json (JStr (str ''in_person''))),
      (str ''purpose'', Json (JStr [])),
      (str ''products_discussed'', Json (JStr (str ''Drug X''))),
      (str ''key_points'', Json (JStr [])),
      (str ''outcome'', Json (JStr [])),
      (str ''next_steps'', Json (JStr [])),
      (str ''follow_up_date'', Json (JStr [])),
      (str ''raw_notes'', Json (JStr (str ''Met Dr. Smith''))),
      (str ''ai_summary'', Json (JStr [])),
      (str ''ai_entities_json'', Json (JStr [])),
      (str ''compliance_flags_json'', Json (JStr [])),
      (str ''created_at'', Datetime noon),
      (str ''updated_at'', Datetime noon)]"

definition sample_patch :: "(pystr \<times> json) list" where
  "sample_patch =
     [(str ''nickname'', JStr (str ''Bob'')),
      (str ''interaction_datetime'', JStr (str ''next week'')),
      (str ''specialty'', JNull)]"

text \<open>A parsed reply of the extraction prompt and a state that enters \<open>node_extract\<close>.\<close>

definition sample_reply :: json where
  "sample_reply =
     JDict [(str ''summary'', JStr (str ''Met Dr. Smith about Drug X.'')),
            (str ''entities'',
               JDict [(str ''hcp_name'', JStr (str ''Dr. Smith'')),
                      (str ''specialty'', JStr []),
                      (str ''channel'', JStr []),
                      (str ''products_discussed'', JStr (str ''Drug X''))])]"

definition sample_state :: AgentState where
  "sample_state =
     \<lparr>thread_id = Some (str ''default''),
      user_message = Some (str ''Met Dr. Smith, discussed Drug X''),
      intent = Some (str ''log''), extracted = None, compliance = None,
      assistant_message = None\<rparr>"

text \<open>
  A parsed reply that gives \<open>null\<close> for the name and the channel, and the draft that
  \<open>node_extract\<close> builds from it at noon.
\<close>

definition null_reply :: json where
  "null_reply =
     JDict [(str ''summary'', JStr (str ''Met Dr. Smith.'')),
            (str ''entities'',
               JDict [(str ''hcp_name'', JNull), (str ''channel'', JNull)])]"

definition null_draft :: "(pystr \<times> json) list" where
  "null_draft =
     [(str ''hcp_name'', JNull),
      (str ''specialty'', JStr []),
      (str ''organization'', JStr []),
      (str ''interaction_datetime'', JStr (str ''2024-05-17T12:00:00'')),
      (str ''channel'', JStr (str ''in_person'')),
      (str ''purpose'', JStr []),
      (str ''products_discussed'', JStr []),
      (str ''key_points'', JStr []),
      (str ''outcome'', JStr []),
      (str ''next_steps'', JStr []),
      (str ''follow_up_date'', JStr []),
      (str ''raw_notes'', JStr (str ''Met Dr. Smith, discussed Drug X'')),
      (str ''ai_summary'', JStr (str ''Met Dr. Smith.'')),
      (str ''ai_entities_json'', JStr (str ''<json>'')),
      (str ''compliance_flags_json'', JStr [])]"

text \<open>A state that enters \<open>node_respond\<close>, with the given flags in its compliance result.\<close>

definition flagged_state :: "json \<Rightarrow> AgentState" where
  "flagged_state flags =
     \<lparr>thread_id = Some (str ''default''),
      user_message = Some (str ''Emailed Dr. Smith about Drug X''),
      intent = Some (str ''log''),
      extracted = Some (JDict [(str ''draft'', JDict [(str ''channel'', JStr (str ''email''))])]),
      compliance = Some (JDict [(str ''flags'', flags), (str ''severity'', JStr (str ''high''))]),
      assistant_message = None\<rparr>"

text \<open>The same with flags that are strings and a draft whose channel is the number 5.\<close>

definition numbered_state :: AgentState where
  "numbered_state =
     \<lparr>thread_id = Some (str ''default''),
      user_message = Some (str ''Emailed Dr. Smith about Drug X''),
      intent = Some (str ''log''),
      extracted = Some (JDict [(str ''draft'', JDict [(str ''channel'', JInt 5)])]),
      compliance = Some (JDict [(str ''flags'', JList [JStr (str ''off_label'')]),
                                (str ''severity'', JStr (str ''high''))]),
      assistant_message = None\<rparr>"

text \<open>
  A chat request, and the draft that the pipeline builds for it when neither reply of the
  stub parses, with the given time stamp.
\<close>

definition stub_request :: ChatReq where
  "stub_request = \<lparr>req_thread_id = None, message = str ''Met Dr. Smith''\<rparr>"

definition stub_draft :: "pystr \<Rightarrow> (pystr \<times> json) list" where
  "stub_draft stamp =
     [(str ''hcp_name'', JStr []),
      (str ''specialty'', JStr []),
      (str ''organization'', JStr []),
      (str ''interaction_datetime'', JStr stamp),
      (str ''channel'', JStr (str ''in_person'')),
      (str ''purpose'', JStr []),
      (str ''products_discussed'', JStr []),
      (str ''key_points'', JStr []),
      (str ''outcome'', JStr []),
      (str ''next_steps'', JStr []),
      (str ''follow_up_date'', JStr []),
      (str ''raw_notes'', JStr (str ''Met Dr. Smith'')),
      (str ''ai_summary'', JStr (str ''Met Dr. Smith'')),
      (str ''ai_entities_json'', JStr (str ''<json>'')),
      (str ''compliance_flags_json'', JStr (str ''<json>''))]"

section \<open>Properties of the extraction and compliance stages\<close>

lemma ebind_Inr [simp]: "ebind (Inr x) f = f x"
  by (simp add: ebind_def)

lemma ebind_Inl [simp]: "ebind (Inl e) f = Inl e"
  by (simp add: ebind_def)

text \<open>The process of the stub, field by field.\<close>

lemma stub_env_eq:
  "stub_env key reply loads now =
     \<lparr>GROQ_API_KEY = key, GROQ_MODEL = str ''gemma2-9b-it'',
      client = (if key \<noteq> [] then Some (stub_completion reply) else None),
      json_loads = loads, json_dumps = (\<lambda>v. str ''<json>''),
      fromisoformat = (\<lambda>s. None), utcnow = now,
      unicode_lower = (\<lambda>s. s), builtin_str = (\<lambda>v. str ''<value>''),
      store_text = (\<lambda>t v. case v of Json (JStr s) \<Rightarrow> Some s | _ \<Rightarrow> None),
      store_datetime = (\<lambda>v. None), store_integer = (\<lambda>v. None)\<rparr>"
  by (simp add: stub_env_def startup_def os_getenv_def stub_lib_def str_def)

text \<open>
  Claim C1. Whenever the completion client hands back a text that \<open>json.loads\<close> rejects,
  \<open>tool_summarize_and_extract\<close> returns (it does not raise) the mapping whose summary is
  \<open>text[:180]\<close>, a prefix of the input of at most 180 characters, and whose entities
  mapping is empty.
\<close>

theorem tool_summarize_and_extract_fallback:
  assumes "groq_chat env extract_system (extract_prompt text) (GROQ_MODEL env) = Inr out"
    and "json_loads env out = None"
  shows "tool_summarize_and_extract env text =
           Inr (JDict [(str ''summary'', JStr (take 180 text)), (str ''entities'', JDict [])])
         \<and> length (take 180 text) \<le> 180
         \<and> (\<exists>rest. text = take 180 text @ rest)"
proof -
  have "text = take 180 text @ drop 180 text"
    by simp
  then have "\<exists>rest. text = take 180 text @ rest" ..
  with assms show ?thesis
    by (simp add: tool_summarize_and_extract_def)
qed

theorem tool_summarize_and_extract_fallback_witness:
  "groq_chat (stub_env (str ''k'') (str ''I cannot answer'') (\<lambda>s. None) noon)
       extract_system (extract_prompt (replicate 200 97))
       (GROQ_MODEL (stub_env (str ''k'') (str ''I cannot answer'') (\<lambda>s. None) noon))
     = Inr (str ''I cannot answer'')
   \<and> json_loads (stub_env (str ''k'') (str ''I cannot answer'') (\<lambda>s. None) noon)
       (str ''I cannot answer'') = None
   \<and> tool_summarize_and_extract (stub_env (str ''k'') (str ''I cannot answer'') (\<lambda>s. None) noon)
       (replicate 200 97)
     = Inr (JDict [(str ''summary'', JStr (replicate 180 97)), (str ''entities'', JDict [])])"
proof -
  let ?E = "stub_env (str ''k'') (str ''I cannot answer'') (\<lambda>s. None) noon"
  have h1: "groq_chat ?E extract_system (extract_prompt (replicate 200 97)) (GROQ_MODEL ?E)
              = Inr (str ''I cannot answer'')"
    by (simp add: groq_chat_def stub_env_eq stub_completion_def str_def)
  have h2: "json_loads ?E (str ''I cannot answer'') = None"
    by (simp add: stub_env_eq)
  from tool_summarize_and_extract_fallback [OF h1 h2] h1 h2 show ?thesis
    by simp
qed

text \<open>
  Claim C2. Whenever the completion client hands back a text that \<open>json.loads\<close> rejects,
  \<open>tool_compliance_check_llm\<close> returns (it does not raise) exactly the mapping with flags
  \<open>["parse_error"]\<close>, severity \<open>"low"\<close> and, as notes, the first 400 characters of that text.
\<close>

theorem tool_compliance_check_llm_fallback:
  assumes "groq_chat env compliance_system (compliance_prompt text) (GROQ_MODEL env) = Inr out"
    and "json_loads env out = None"
  shows "tool_compliance_check_llm env text =
           Inr (JDict [(str ''flags'', JList [JStr (str ''parse_error'')]),
                       (str ''severity'', JStr (str ''low'')),
                       (str ''notes'', JStr (take 400 out))])
         \<and> length (take 400 out) \<le> 400
         \<and> (\<exists>rest. out = take 400 out @ rest)"
proof -
  have "out = take 400 out @ drop 400 out"
    by simp
  then have "\<exists>rest. out = take 400 out @ rest" ..
  with assms show ?thesis
    by (simp add: tool_compliance_check_llm_def)
qed

theorem tool_compliance_check_llm_fallback_witness:
  "groq_chat (stub_env (str ''k'') (replicate 450 120) (\<lambda>s. None) noon)
       compliance_system (compliance_prompt (str ''Met Dr. Smith''))
       (GROQ_MODEL (stub_env (str ''k'') (replicate 450 120) (\<lambda>s. None) noon))
     = Inr (replicate 450 120)
   \<and> json_loads (stub_env (str ''k'') (replicate 450 120) (\<lambda>s. None) noon)
       (replicate 450 120) = None
   \<and> tool_compliance_check_llm (stub_env (str ''k'') (replicate 450 120) (\<lambda>s. None) noon)
       (str ''Met Dr. Smith'')
     = Inr (JDict [(str ''flags'', JList [JStr (str ''parse_error'')]),
                   (str ''severity'', JStr (str ''low'')),
                   (str ''notes'', JStr (replicate 400 120))])"
proof -
  let ?E = "stub_env (str ''k'') (replicate 450 120) (\<lambda>s. None) noon"
  have h1: "groq_chat ?E compliance_system (compliance_prompt (str ''Met Dr. Smith''))
              (GROQ_MODEL ?E) = Inr (replicate 450 120)"
    by (simp add: groq_chat_def stub_env_eq stub_completion_def str_def)
  have h2: "json_loads ?E (replicate 450 120) = None"
    by (simp add: stub_env_eq)
  from tool_compliance_check_llm_fallback [OF h1 h2] h1 h2 show ?thesis
    by simp
qed

section \<open>Properties of the edit operation\<close>

lemma getattr_setattr: "getattr (setattr row k v) k' = (if k' = k then v else getattr row k')"
  by (simp add: getattr_def setattr_def update_conv')

lemma find_row_None: "find_row i db = None \<longleftrightarrow> list_all (\<lambda>r. getattr r (str ''id'') \<noteq> Json (JInt i)) db"
  by (induction db) auto


lemma patch_item_other:
  "k' \<noteq> k \<or> k \<notin> set allowed \<Longrightarrow> getattr (patch_item env k v row) k' = getattr row k'"
  by (auto simp: patch_item_def getattr_setattr split: json.splits option.splits)

lemma patch_row_other:
  "k' \<notin> fst ` set patch \<or> k' \<notin> set allowed \<Longrightarrow> getattr (patch_row env patch row) k' = getattr row k'"
proof (induction patch arbitrary: row)
  case Nil
  then show ?case by simp
next
  case (Cons kv patch)
  obtain k v where kv: "kv = (k, v)" by (cases kv)
  from Cons.prems have "k' \<notin> fst ` set patch \<or> k' \<notin> set allowed" by auto
  then have "getattr (patch_row env patch (patch_item env k v row)) k' = getattr (patch_item env k v row) k'"
    by (rule Cons.IH)
  moreover from Cons.prems kv have "k' \<noteq> k \<or> k \<notin> set allowed" by auto
  then have "getattr (patch_item env k v row) k' = getattr row k'"
    by (rule patch_item_other)
  ultimately show ?case using kv by simp
qed


lemma patch_row_entry:
  "distinct (map fst patch) \<Longrightarrow> (k, v) \<in> set patch \<Longrightarrow>
     getattr (patch_row env patch row) k = getattr (patch_item env k v row) k"
proof (induction patch arbitrary: row)
  case Nil
  then show ?case by simp
next
  case (Cons kv patch)
  obtain k0 v0 where kv: "kv = (k0, v0)" by (cases kv)
  show ?case
  proof (cases "(k, v) = (k0, v0)")
    case True
    with Cons.prems kv have "k \<notin> fst ` set patch" by auto
    then have "getattr (patch_row env patch (patch_item env k v row)) k = getattr (patch_item env k v row) k"
      by (simp add: patch_row_other)
    with True kv show ?thesis by simp
  next
    case False
    with Cons.prems kv have in_rest: "(k, v) \<in> set patch" and d: "distinct (map fst patch)" by auto
    from in_rest Cons.prems kv have ne: "k \<noteq> k0" by force
    from Cons.IH [OF d in_rest]
    have "getattr (patch_row env patch (patch_item env k0 v0 row)) k
            = getattr (patch_item env k v (patch_item env k0 v0 row)) k" .
    also have "\<dots> = getattr (patch_item env k v row) k"
      using ne by (auto simp: patch_item_def getattr_setattr split: json.splits option.splits)
    finally show ?thesis using kv by simp
  qed
qed







lemma flush_bound:
  "flush env cols old new = Some stored \<Longrightarrow> map_of cols k = Some t \<Longrightarrow>
     getattr new k \<noteq> getattr old k \<Longrightarrow>
     bind_value env t (getattr new k) = Some (getattr stored k)"
proof (induction cols arbitrary: stored)
  case Nil
  then show ?case by simp
next
  case (Cons c cols)
  obtain c0 t0 where c: "c = (c0, t0)" by (cases c)
  from Cons.prems(1) c obtain mid where mid: "flush env cols old new = Some mid"
    by (auto split: option.splits)
  show ?case
  proof (cases "c0 = k")
    case True
    with Cons.prems(2) c have t: "t0 = t" by simp
    from True Cons.prems(1,3) c mid obtain v
      where "bind_value env t0 (getattr new k) = Some v" "stored = setattr mid k v"
      by (auto split: option.splits)
    with t show ?thesis by (simp add: getattr_setattr)
  next
    case False
    with Cons.prems(2) c have m: "map_of cols k = Some t" by simp
    from Cons.IH [OF mid m Cons.prems(3)]
    have ih: "bind_value env t (getattr new k) = Some (getattr mid k)" .
    from Cons.prems(1) c mid have "stored = mid \<or> (\<exists>v. stored = setattr mid c0 v)"
      by (auto split: option.splits if_splits)
    with False have "getattr stored k = getattr mid k"
      by (auto simp: getattr_setattr)
    with ih show ?thesis by simp
  qed
qed









lemma columns_datetime: "map_of columns (str ''interaction_datetime'') = Some DateTime"
  by (simp add: columns_def str_def)


lemma bind_value_datetime_empty: "bind_value env DateTime (Json (JStr [])) = None"
  by (simp add: bind_value_def)



lemma tool_edit_interaction_found:
  assumes "find_row interaction_id db = Some n"
  shows "tool_edit_interaction env db interaction_id patch =
           (case flush env columns (db ! n)
                   (setattr (patch_row env patch (db ! n)) (str ''updated_at'') (Datetime (utcnow env))) of
              None \<Rightarrow> Inl StatementError
            | Some stored \<Rightarrow> Inr (db[n := stored], JDict [(str ''ok'', JBool True)]))"
  using assms by (simp add: tool_edit_interaction_def Let_def)


text \<open>
  A patch that gives \<open>None\<close> for \<open>interaction_datetime\<close> is refused at \<open>commit\<close>, whatever
  else it holds and whatever the database engine, unless the row already holds the empty
  string there.
\<close>

lemma tool_edit_interaction_null_date:
  assumes "find_row interaction_id db = Some n"
    and d: "distinct (map fst patch)"
    and m: "(str ''interaction_datetime'', JNull) \<in> set patch"
    and old: "getattr (db ! n) (str ''interaction_datetime'') \<noteq> Json (JStr [])"
  shows "tool_edit_interaction env db interaction_id patch = Inl StatementError"
proof -
  let ?k = "str ''interaction_datetime''"
  let ?new = "setattr (patch_row env patch (db ! n)) (str ''updated_at'') (Datetime (utcnow env))"
  have "?k \<in> set allowed" "?k \<noteq> str ''updated_at''"
    by (simp_all add: allowed_def str_def)
  then have new: "getattr ?new ?k = Json (JStr [])"
    by (simp add: getattr_setattr patch_row_entry [OF d m] patch_item_def none_to_empty_def)
  have "flush env columns (db ! n) ?new = None"
  proof (cases "flush env columns (db ! n) ?new")
    case (Some stored)
    from old new have "getattr ?new ?k \<noteq> getattr (db ! n) ?k" by simp
    from flush_bound [OF Some columns_datetime this] new show ?thesis
      by (simp add: bind_value_datetime_empty)
  qed simp
  then show ?thesis
    by (simp add: tool_edit_interaction_found [OF assms(1)])
qed




text \<open>
  Claim C6. When no row of the table has the identifier, \<open>tool_edit_interaction\<close> returns
  the not-found result and the table it leaves is the table it was given; the endpoint
  \<open>edit_interaction\<close> then raises the 404 exception, again with the table unchanged.
\<close>

theorem tool_edit_interaction_not_found:
  assumes "list_all (\<lambda>row. getattr row (str ''id'') \<noteq> Json (JInt interaction_id)) db"
  shows "tool_edit_interaction env db interaction_id patch
           = Inr (db, JDict [(str ''ok'', JBool False), (str ''error'', JStr (str ''not_found''))])
       \<and> edit_interaction env db interaction_id patch
           = (db, Inl (HTTPException 404 (str ''Interaction not found'')))"
proof -
  from assms have none: "find_row interaction_id db = None"
    by (simp add: find_row_None)
  then have tool: "tool_edit_interaction env db interaction_id patch
           = Inr (db, JDict [(str ''ok'', JBool False), (str ''error'', JStr (str ''not_found''))])"
    by (simp add: tool_edit_interaction_def)
  have "dict_get [(str ''ok'', JBool False), (str ''error'', JStr (str ''not_found''))] (str ''ok'') JNull
          = JBool False"
    by (simp add: dict_get_def)
  with tool show ?thesis
    by (simp add: edit_interaction_def)
qed

theorem tool_edit_interaction_not_found_witness:
  "list_all (\<lambda>row. getattr row (str ''id'') \<noteq> Json (JInt 7)) [sample_row 1, sample_row 2]
   \<and> tool_edit_interaction (stub_env [] [] (\<lambda>s. None) later) [sample_row 1, sample_row 2] 7 sample_patch
       = Inr ([sample_row 1, sample_row 2],
              JDict [(str ''ok'', JBool False), (str ''error'', JStr (str ''not_found''))])
   \<and> edit_interaction (stub_env [] [] (\<lambda>s. None) later) [sample_row 1, sample_row 2] 7 sample_patch
       = ([sample_row 1, sample_row 2], Inl (HTTPException 404 (str ''Interaction not found'')))"
proof -
  have h: "list_all (\<lambda>row. getattr row (str ''id'') \<noteq> Json (JInt 7)) [sample_row 1, sample_row 2]"
    by (simp add: sample_row_def getattr_def str_def)
  from tool_edit_interaction_not_found [OF h] h show ?thesis
    by simp
qed




section \<open>Properties of the draft and of the advisor\<close>

lemma draft_of_channel:
  "map_of (draft_of env ents summary msg) (str ''channel'')
     = Some (py_or (dict_get ents (str ''channel'') (JStr (str ''in_person''))) (JStr (str ''in_person'')))"
  by (simp add: draft_of_def str_def)

lemma draft_of_raw_notes:
  "map_of (draft_of env ents summary msg) (str ''raw_notes'') = Some (JStr msg)"
  by (simp add: draft_of_def str_def)

lemma draft_of_entity:
  assumes "k \<in> set entity_fields"
  shows "map_of (draft_of env ents summary msg) k = Some (dict_get ents k (JStr []))"
proof -
  from assms consider "k = str ''hcp_name''" | "k = str ''specialty''" | "k = str ''organization''"
    | "k = str ''purpose''" | "k = str ''products_discussed''" | "k = str ''key_points''"
    | "k = str ''outcome''" | "k = str ''next_steps''" | "k = str ''follow_up_date''"
    unfolding entity_fields_def by fastforce
  then show ?thesis
    by cases (simp_all add: draft_of_def str_def)
qed

text \<open>
  \<open>node_extract\<close> returns only when the parsed reply is a dict and its \<open>entities\<close> is a
  dict or falsy: in every other case \<open>.get\<close> raises and no draft is built.
\<close>

lemma node_extract_returns:
  assumes "node_extract env state = Inr s"
  shows "\<exists>msg result ents.
           user_message state = Some msg
         \<and> tool_summarize_and_extract env msg = Inr (JDict result)
         \<and> py_or (dict_get result (str ''entities'') JNull) (JDict []) = JDict ents"
proof (cases "user_message state")
  case None
  with assms show ?thesis by (simp add: node_extract_def)
next
  case (Some msg)
  show ?thesis
  proof (cases "tool_summarize_and_extract env msg")
    case (Inl e)
    with assms Some show ?thesis by (simp add: node_extract_def)
  next
    case (Inr result)
    show ?thesis
    proof (cases result)
      case (JDict r)
      show ?thesis
      proof (cases "py_or (dict_get r (str ''entities'') JNull) (JDict [])")
        case ents: (JDict ents)
        with Some Inr JDict show ?thesis by simp
      qed (use assms Some Inr JDict in \<open>simp_all add: node_extract_def\<close>)
    qed (use assms Some Inr in \<open>simp_all add: node_extract_def\<close>)
  qed
qed

lemma node_extract_run:
  assumes "user_message state = Some msg"
    and "tool_summarize_and_extract env msg = Inr (JDict result)"
    and "py_or (dict_get result (str ''entities'') JNull) (JDict []) = JDict ents"
  shows "node_extract env state
           = Inr (state\<lparr>extracted := Some (JDict [(str ''draft'',
                    JDict (draft_of env ents
                             (py_or (dict_get result (str ''summary'') JNull) (JStr [])) msg))])\<rparr>)"
  using assms by (simp add: node_extract_def)

text \<open>
  When the parsed reply is a dict whose \<open>entities\<close> is a dict (or falsy, read as the empty
  dict), \<open>node_extract\<close> returns a state holding a draft in which every entity field is
  what \<open>entities.get(k, "")\<close> gives: the empty string when the key is absent or holds the
  empty string, and the value itself otherwise, \<open>None\<close> included. \<open>channel\<close> is
  \<open>"in_person"\<close> when it is absent or falsy there, and \<open>raw_notes\<close> is the user message
  itself.
\<close>

lemma node_extract_draft:
  assumes "user_message state = Some msg"
    and "tool_summarize_and_extract env msg = Inr (JDict result)"
    and "py_or (dict_get result (str ''entities'') JNull) (JDict []) = JDict ents"
  shows "\<exists>draft.
           node_extract env state
             = Inr (state\<lparr>extracted := Some (JDict [(str ''draft'', JDict draft)])\<rparr>)
         \<and> (\<forall>k. k \<in> set entity_fields
                  \<and> (map_of ents k = None \<or> map_of ents k = Some (JStr []))
                \<longrightarrow> map_of draft k = Some (JStr []))
         \<and> (\<forall>k v. k \<in> set entity_fields \<and> map_of ents k = Some v
                \<longrightarrow> map_of draft k = Some v)
         \<and> (map_of ents (str ''channel'') = None
              \<or> (\<exists>v. map_of ents (str ''channel'') = Some v \<and> \<not> truthy v)
            \<longrightarrow> map_of draft (str ''channel'') = Some (JStr (str ''in_person'')))
         \<and> map_of draft (str ''raw_notes'') = Some (JStr msg)"
proof -
  let ?summary = "py_or (dict_get result (str ''summary'') JNull) (JStr [])"
  let ?draft = "draft_of env ents ?summary msg"
  have run: "node_extract env state
               = Inr (state\<lparr>extracted := Some (JDict [(str ''draft'', JDict ?draft)])\<rparr>)"
    using assms by (simp add: node_extract_def)
  have fields: "map_of ?draft k = Some (JStr [])"
    if "k \<in> set entity_fields" and "map_of ents k = None \<or> map_of ents k = Some (JStr [])" for k
    using that by (auto simp: draft_of_entity dict_get_def)
  have copied: "map_of ?draft k = Some v"
    if "k \<in> set entity_fields" and "map_of ents k = Some v" for k v
    using that by (simp add: draft_of_entity dict_get_def)
  have channel: "map_of ?draft (str ''channel'') = Some (JStr (str ''in_person''))"
    if "map_of ents (str ''channel'') = None
          \<or> (\<exists>v. map_of ents (str ''channel'') = Some v \<and> \<not> truthy v)"
    using that by (auto simp: draft_of_channel dict_get_def py_or_def)
  have raw: "map_of ?draft (str ''raw_notes'') = Some (JStr msg)"
    by (rule draft_of_raw_notes)
  from run fields copied channel raw show ?thesis by blast
qed

lemma node_extract_draft_sample:
  "user_message sample_state = Some (str ''Met Dr. Smith, discussed Drug X'')
   \<and> tool_summarize_and_extract (stub_env (str ''k'') (str ''{}'') (\<lambda>s. Some sample_reply) noon)
        (str ''Met Dr. Smith, discussed Drug X'') = Inr sample_reply
   \<and> (\<exists>draft.
         node_extract (stub_env (str ''k'') (str ''{}'') (\<lambda>s. Some sample_reply) noon) sample_state
           = Inr (sample_state\<lparr>extracted := Some (JDict [(str ''draft'', JDict draft)])\<rparr>)
         \<and> map_of draft (str ''specialty'') = Some (JStr [])
         \<and> map_of draft (str ''organization'') = Some (JStr [])
         \<and> map_of draft (str ''channel'') = Some (JStr (str ''in_person''))
         \<and> map_of draft (str ''raw_notes'') = Some (JStr (str ''Met Dr. Smith, discussed Drug X'')))"
proof -
  let ?E = "stub_env (str ''k'') (str ''{}'') (\<lambda>s. Some sample_reply) noon"
  let ?msg = "str ''Met Dr. Smith, discussed Drug X''"
  let ?result = "[(str ''summary'', JStr (str ''Met Dr. Smith about Drug X.'')),
            (str ''entities'',
               JDict [(str ''hcp_name'', JStr (str ''Dr. Smith'')),
                      (str ''specialty'', JStr []),
                      (str ''channel'', JStr []),
                      (str ''products_discussed'', JStr (str ''Drug X''))])]"
  let ?ents = "[(str ''hcp_name'', JStr (str ''Dr. Smith'')),
                      (str ''specialty'', JStr []),
                      (str ''channel'', JStr []),
                      (str ''products_discussed'', JStr (str ''Drug X''))]"
  have h1: "user_message sample_state = Some ?msg"
    by (simp add: sample_state_def)
  have h2: "tool_summarize_and_extract ?E ?msg = Inr (JDict ?result)"
    by (simp add: tool_summarize_and_extract_def groq_chat_def stub_env_eq
          stub_completion_def sample_reply_def str_def)
  have h3: "py_or (dict_get ?result (str ''entities'') JNull) (JDict []) = JDict ?ents"
    by (simp add: py_or_def dict_get_def str_def)
  have f1: "str ''specialty'' \<in> set entity_fields \<and> map_of ?ents (str ''specialty'') = Some (JStr [])"
    by (simp add: entity_fields_def str_def)
  have f2: "str ''organization'' \<in> set entity_fields \<and> map_of ?ents (str ''organization'') = None"
    by (simp add: entity_fields_def str_def)
  have f3: "map_of ?ents (str ''channel'') = Some (JStr []) \<and> \<not> truthy (JStr [])"
    by (simp add: str_def)
  from node_extract_draft [OF h1 h2 h3] obtain draft where
    d: "node_extract ?E sample_state
          = Inr (sample_state\<lparr>extracted := Some (JDict [(str ''draft'', JDict draft)])\<rparr>)"
       "\<forall>k. k \<in> set entity_fields
                  \<and> (map_of ?ents k = None \<or> map_of ?ents k = Some (JStr []))
                \<longrightarrow> map_of draft k = Some (JStr [])"
       "\<forall>k v. k \<in> set entity_fields \<and> map_of ?ents k = Some v
                \<longrightarrow> map_of draft k = Some v"
       "map_of ?ents (str ''channel'') = None
              \<or> (\<exists>v. map_of ?ents (str ''channel'') = Some v \<and> \<not> truthy v)
            \<longrightarrow> map_of draft (str ''channel'') = Some (JStr (str ''in_person''))"
       "map_of draft (str ''raw_notes'') = Some (JStr ?msg)"
    by blast
  from d(2) f1 have s: "map_of draft (str ''specialty'') = Some (JStr [])" by blast
  from d(2) f2 have orga: "map_of draft (str ''organization'') = Some (JStr [])" by blast
  from d(4) f3 have c: "map_of draft (str ''channel'') = Some (JStr (str ''in_person''))" by blast
  have r: "sample_reply = JDict ?result"
    by (simp add: sample_reply_def)
  from h1 h2 r d(1) s orga c d(5) show ?thesis by auto
qed

text \<open>
  Claim C7. The draft can hold \<open>None\<close> in an entity field. When the parsed reply gives
  \<open>null\<close> for \<open>hcp_name\<close>, the key is present, \<open>entities.get("hcp_name", "")\<close> is \<open>None\<close>, and
  \<open>node_extract\<close> returns a draft whose \<open>hcp_name\<close> is \<open>None\<close> and not the empty string; the
  channel of the same draft, \<open>null\<close> in the reply as well, is \<open>"in_person"\<close>.
\<close>

theorem node_extract_null:
  "node_extract (stub_env (str ''k'') (str ''{}'') (\<lambda>s. Some null_reply) noon) sample_state
     = Inr (sample_state\<lparr>extracted := Some (JDict [(str ''draft'', JDict null_draft)])\<rparr>)
   \<and> map_of null_draft (str ''hcp_name'') = Some JNull
   \<and> map_of null_draft (str ''channel'') = Some (JStr (str ''in_person''))"
proof -
  let ?E = "stub_env (str ''k'') (str ''{}'') (\<lambda>s. Some null_reply) noon"
  let ?msg = "str ''Met Dr. Smith, discussed Drug X''"
  have h1: "user_message sample_state = Some ?msg"
    by (simp add: sample_state_def)
  let ?result = "[(str ''summary'', JStr (str ''Met Dr. Smith.'')),
                  (str ''entities'', JDict [(str ''hcp_name'', JNull), (str ''channel'', JNull)])]"
  let ?ents = "[(str ''hcp_name'', JNull), (str ''channel'', JNull)]"
  have h2: "tool_summarize_and_extract ?E ?msg = Inr (JDict ?result)"
    by (simp add: tool_summarize_and_extract_def groq_chat_def stub_env_eq
          stub_completion_def null_reply_def str_def)
  have h3: "py_or (dict_get ?result (str ''entities'') JNull) (JDict []) = JDict ?ents"
    by (simp add: py_or_def dict_get_def str_def)
  have h4: "py_or (dict_get ?result (str ''summary'') JNull) (JStr []) = JStr (str ''Met Dr. Smith.'')"
    by (simp add: py_or_def dict_get_def str_def)
  have iso: "isoformat noon = str ''2024-05-17T12:00:00''"
    by (simp add: isoformat_def noon_def zpad_def dec.simps str_def)
  have d: "draft_of ?E ?ents (JStr (str ''Met Dr. Smith.'')) ?msg = null_draft"
    by (simp add: draft_of_def null_draft_def dict_get_def py_or_def iso stub_env_eq str_def)
  have run: "node_extract ?E sample_state
     = Inr (sample_state\<lparr>extracted := Some (JDict [(str ''draft'', JDict null_draft)])\<rparr>)"
    using node_extract_run [OF h1 h2 h3] by (simp only: h4 d)
  have "map_of null_draft (str ''hcp_name'') = Some JNull
      \<and> map_of null_draft (str ''channel'') = Some (JStr (str ''in_person''))"
    by (simp add: null_draft_def str_def)
  with run show ?thesis by simp
qed

text \<open>
  Claim C8, as the code has it. When the channel of the mapping is a string, or is absent
  or falsy (read as the empty string), \<open>tool_suggest_next_best_action\<close> returns, without
  raising, the follow-up-message advice if the lower-cased channel is \<open>email\<close> or
  \<open>whatsapp\<close> and the visit/call advice otherwise; the result depends on the mapping
  through that string only. On pure ASCII, lower-casing maps \<open>A\<close> to \<open>Z\<close> onto \<open>a\<close> to \<open>z\<close>.
\<close>

theorem tool_suggest_next_best_action_strings:
  assumes "py_or (dict_get args (str ''channel'') JNull) (JStr []) = JStr s"
  shows "tool_suggest_next_best_action env (JDict args)
           = Inr (JDict [(str ''next_best_action'',
                          JStr (if lower env s = str ''email'' \<or> lower env s = str ''whatsapp''
                                then nba_message else nba_visit))])
       \<and> (list_all (\<lambda>c. c < 128) s \<longrightarrow> lower env s = map lower_ascii s)"
  using assms by (simp add: tool_suggest_next_best_action_def lower_def)

theorem tool_suggest_next_best_action_strings_witness:
  "py_or (dict_get [(str ''channel'', JStr (str ''WhatsApp''))] (str ''channel'') JNull) (JStr [])
     = JStr (str ''WhatsApp'')
   \<and> list_all (\<lambda>c. c < 128) (str ''WhatsApp'')
   \<and> tool_suggest_next_best_action (stub_env [] [] (\<lambda>s. None) noon)
        (JDict [(str ''channel'', JStr (str ''WhatsApp''))])
     = Inr (JDict [(str ''next_best_action'', JStr nba_message)])"
proof -
  have h: "py_or (dict_get [(str ''channel'', JStr (str ''WhatsApp''))] (str ''channel'') JNull) (JStr [])
             = JStr (str ''WhatsApp'')"
    by (simp add: py_or_def dict_get_def str_def)
  have a: "list_all (\<lambda>c. c < 128) (str ''WhatsApp'')"
    by (simp add: str_def)
  have l: "map lower_ascii (str ''WhatsApp'') = str ''whatsapp''"
    by (simp add: str_def lower_ascii_def)
  from tool_suggest_next_best_action_strings [OF h, of "stub_env [] [] (\<lambda>s. None) noon"] h a l
  show ?thesis by simp
qed

text \<open>
  The advisor is not total on every channel value: a truthy channel that is not a string
  (here the number 5, as a parsed reply may hold) has no \<open>lower\<close> method, and the call
  raises \<open>AttributeError\<close>.
\<close>

theorem tool_suggest_next_best_action_number:
  "tool_suggest_next_best_action (stub_env [] [] (\<lambda>s. None) noon)
      (JDict [(str ''channel'', JInt 5)]) = Inl AttributeError"
  by (simp add: tool_suggest_next_best_action_def py_or_def dict_get_def)

text \<open>The same holds of every channel that is truthy and not a string.\<close>

lemma tool_suggest_next_best_action_not_string:
  assumes "\<forall>s. py_or (dict_get args (str ''channel'') JNull) (JStr []) \<noteq> JStr s"
  shows "tool_suggest_next_best_action env (JDict args) = Inl AttributeError"
  using assms
  by (cases "py_or (dict_get args (str ''channel'') JNull) (JStr [])")
     (simp_all add: tool_suggest_next_best_action_def)

section \<open>Properties of the response composer\<close>

lemma startswith_append: "startswith (sub @ rest) sub"
  by (induction sub) auto

lemma contains_here: "contains sub (sub @ rest)"
proof (cases "sub @ rest")
  case Nil
  then show ?thesis by simp
next
  case (Cons c cs)
  have "startswith (sub @ rest) sub"
    by (rule startswith_append)
  with Cons show ?thesis by simp
qed

lemma contains_append: "contains sub (pre @ sub @ rest)"
proof (induction pre)
  case Nil
  show ?case by (simp add: contains_here)
next
  case (Cons c pre)
  then show ?case by simp
qed

lemma startswith_set: "startswith s sub \<Longrightarrow> set sub \<subseteq> set s"
  by (induction s sub rule: startswith.induct) auto

lemma contains_set: "contains sub s \<Longrightarrow> set sub \<subseteq> set s"
proof (induction s)
  case Nil
  then show ?case by simp
next
  case (Cons c cs)
  then show ?case
    using startswith_set [of "c # cs" sub] by auto
qed

lemma strs_of_map: "strs_of (map JStr ss) = Some ss"
  by (induction ss) auto

lemma map_JStr_single: "map JStr ss = [JStr p] \<longleftrightarrow> ss = [p]"
  by (cases ss) auto

lemma tool_suggest_next_best_action_result:
  assumes "tool_suggest_next_best_action env d = Inr advice"
  shows "advice = JDict [(str ''next_best_action'', JStr nba_message)]
       \<or> advice = JDict [(str ''next_best_action'', JStr nba_visit)]"
proof (cases d)
  case (JDict kv)
  with assms show ?thesis
    by (auto simp: tool_suggest_next_best_action_def Let_def split: json.splits if_splits)
qed (use assms in \<open>simp_all add: tool_suggest_next_best_action_def\<close>)

lemma no_sign_ack: "9888 \<notin> set ack_line"
  by (simp add: ack_line_def str_def)

lemma no_sign_closing: "9888 \<notin> set closing_line"
  by (simp add: closing_line_def str_def)

lemma no_sign_nba_message: "9888 \<notin> set (nba_line nba_message)"
  by (simp add: nba_line_def nba_message_def str_def)

lemma no_sign_nba_visit: "9888 \<notin> set (nba_line nba_visit)"
  by (simp add: nba_line_def nba_visit_def str_def)

lemma sign_in_warning: "9888 \<in> set (warning_line sev joined)"
  by (simp add: warning_line_def)

text \<open>
  Claim C3, as the code has it. For a state whose draft is a dict (or absent, read as the
  empty dict) with a channel that is a string (or absent or falsy, read as the empty
  string), and whose compliance result is a dict (or absent) with flags that are a list
  of strings (or absent or falsy, read as the empty list), \<open>node_respond\<close> returns the
  message made of the acknowledgment, the advice for that channel, the warning line when
  the flags are non-empty and not exactly \<open>["parse_error"]\<close>, and the closing instruction.
  The warning line lists the flags joined by \<open>", "\<close> and the severity (\<open>"low"\<close> when none is
  given), and it occurs in the message if and only if the flags are non-empty and not
  exactly \<open>["parse_error"]\<close>.
\<close>

theorem node_respond_warning:
  assumes d: "state_draft state = Inr (JDict draft)"
    and ch: "py_or (dict_get draft (str ''channel'') JNull) (JStr []) = JStr channel"
    and c: "py_or (state_get (compliance state)) (JDict []) = JDict c"
    and f: "py_or (dict_get c (str ''flags'') JNull) (JList []) = JList (map JStr flags)"
  shows "\<exists>nba sev line msg.
           nba = (if lower env channel = str ''email'' \<or> lower env channel = str ''whatsapp''
                  then nba_message else nba_visit)
         \<and> sev = py_format env (py_or (dict_get c (str ''severity'') JNull) (JStr (str ''low'')))
         \<and> line = warning_line sev (join_strs (str '', '') flags)
         \<and> msg = ack_line @ nba_line nba
                   @ (if flags \<noteq> [] \<and> flags \<noteq> [str ''parse_error''] then line else [])
                   @ closing_line
         \<and> node_respond env state = Inr (state\<lparr>assistant_message := Some msg\<rparr>)
         \<and> (contains line msg \<longleftrightarrow> flags \<noteq> [] \<and> flags \<noteq> [str ''parse_error''])"
proof -
  define nba where "nba = (if lower env channel = str ''email'' \<or> lower env channel = str ''whatsapp''
                           then nba_message else nba_visit)"
  let ?sev = "py_format env (py_or (dict_get c (str ''severity'') JNull) (JStr (str ''low'')))"
  let ?line = "warning_line ?sev (join_strs (str '', '') flags)"
  let ?cond = "flags \<noteq> [] \<and> flags \<noteq> [str ''parse_error'']"
  let ?msg = "ack_line @ nba_line nba @ (if ?cond then ?line else []) @ closing_line"
  have a: "tool_suggest_next_best_action env (JDict draft)
             = Inr (JDict [(str ''next_best_action'', JStr nba)])"
    using ch by (simp add: tool_suggest_next_best_action_def nba_def)
  have g: "dict_get [(str ''next_best_action'', JStr nba)] (str ''next_best_action'') (JStr [])
             = JStr nba"
    by (simp add: dict_get_def)
  have fmt: "py_format env (JStr nba) = nba"
    by (simp add: py_format_def)
  have run: "node_respond env state = Inr (state\<lparr>assistant_message := Some ?msg\<rparr>)"
    by (simp add: node_respond_def d a c f g fmt Let_def strs_of_map map_JStr_single)
  have iff: "contains ?line ?msg \<longleftrightarrow> ?cond"
  proof (cases ?cond)
    case True
    have "contains ?line ((ack_line @ nba_line nba) @ ?line @ closing_line)"
      by (rule contains_append)
    with True show ?thesis by simp
  next
    case False
    have "nba = nba_message \<or> nba = nba_visit"
      by (simp add: nba_def)
    then have "9888 \<notin> set (nba_line nba)"
      using no_sign_nba_message no_sign_nba_visit by auto
    with False have "9888 \<notin> set ?msg"
      using no_sign_ack no_sign_closing by (simp del: de_Morgan_conj)
    moreover have "9888 \<in> set ?line"
      by (rule sign_in_warning)
    ultimately have "\<not> contains ?line ?msg"
      using contains_set [of ?line ?msg] by auto
    with False show ?thesis by simp
  qed
  from run iff nba_def show ?thesis by blast
qed

theorem node_respond_warning_witness:
  "state_draft (flagged_state (JList (map JStr [str ''off_label'', str ''pii_risk''])))
     = Inr (JDict [(str ''channel'', JStr (str ''email''))])
   \<and> py_or (dict_get [(str ''channel'', JStr (str ''email''))] (str ''channel'') JNull) (JStr [])
     = JStr (str ''email'')
   \<and> node_respond (stub_env [] [] (\<lambda>s. None) noon)
        (flagged_state (JList (map JStr [str ''off_label'', str ''pii_risk''])))
     = Inr ((flagged_state (JList (map JStr [str ''off_label'', str ''pii_risk''])))
             \<lparr>assistant_message :=
                Some (ack_line @ nba_line nba_message
                      @ warning_line (str ''high'') (str ''off_label, pii_risk'')
                      @ closing_line)\<rparr>)
   \<and> node_respond (stub_env [] [] (\<lambda>s. None) noon)
        (flagged_state (JList (map JStr [str ''parse_error''])))
     = Inr ((flagged_state (JList (map JStr [str ''parse_error''])))
             \<lparr>assistant_message := Some (ack_line @ nba_line nba_message @ closing_line)\<rparr>)"
proof -
  let ?E = "stub_env [] [] (\<lambda>s. None) noon"
  let ?D = "JDict [(str ''channel'', JStr (str ''email''))]"
  have d: "state_draft (flagged_state fl) = Inr ?D" for fl
    by (simp add: state_draft_def flagged_state_def state_get_def py_or_def dict_get_def)
  have a: "py_or (dict_get [(str ''channel'', JStr (str ''email''))] (str ''channel'') JNull) (JStr [])
             = JStr (str ''email'')"
    by (simp add: py_or_def dict_get_def str_def)
  have l: "lower ?E (str ''email'') = str ''email''"
    by (simp add: lower_def lower_ascii_def str_def)
  have c: "py_or (state_get (compliance (flagged_state (JList (map JStr fs))))) (JDict [])
             = JDict [(str ''flags'', JList (map JStr fs)), (str ''severity'', JStr (str ''high''))]"
    for fs
    by (simp add: flagged_state_def state_get_def py_or_def)
  have f: "py_or (dict_get [(str ''flags'', JList (map JStr fs)), (str ''severity'', JStr (str ''high''))]
                    (str ''flags'') JNull) (JList []) = JList (map JStr fs)" for fs
    by (simp add: py_or_def dict_get_def)
  have sev: "py_format ?E (py_or (dict_get [(str ''flags'', fv),
                                            (str ''severity'', JStr (str ''high''))]
                                    (str ''severity'') JNull) (JStr (str ''low''))) = str ''high''"
    for fv
    by (simp add: py_format_def py_or_def dict_get_def str_def)
  have j: "join_strs (str '', '') [str ''off_label'', str ''pii_risk''] = str ''off_label, pii_risk''"
    by (simp add: str_def)
  have ne: "[str ''off_label'', str ''pii_risk''] \<noteq> [] \<and>
            [str ''off_label'', str ''pii_risk''] \<noteq> [str ''parse_error'']"
    by simp
  from node_respond_warning [OF d a c f, where flags = "[str ''off_label'', str ''pii_risk'']"
         and env = ?E] sev j ne l
  have r1: "node_respond ?E (flagged_state (JList (map JStr [str ''off_label'', str ''pii_risk''])))
     = Inr ((flagged_state (JList (map JStr [str ''off_label'', str ''pii_risk''])))
             \<lparr>assistant_message :=
                Some (ack_line @ nba_line nba_message
                      @ warning_line (str ''high'') (str ''off_label, pii_risk'')
                      @ closing_line)\<rparr>)"
    by simp
  from node_respond_warning [OF d a c f, where flags = "[str ''parse_error'']" and env = ?E] sev l
  have r2: "node_respond ?E (flagged_state (JList (map JStr [str ''parse_error''])))
     = Inr ((flagged_state (JList (map JStr [str ''parse_error''])))
             \<lparr>assistant_message := Some (ack_line @ nba_line nba_message @ closing_line)\<rparr>)"
    by simp
  from d a r1 r2 show ?thesis by simp
qed

text \<open>
  The composer does not produce a warning line for every non-empty flags list other than
  \<open>["parse_error"]\<close>: when an item of the list is not a string (here the number 1, as a
  parsed reply may hold), \<open>', '.join(flags)\<close> raises \<open>TypeError\<close> and no message is
  composed.
\<close>

theorem node_respond_warning_number:
  "truthy (JList [JInt 1])
   \<and> JList [JInt 1] \<noteq> JList [JStr (str ''parse_error'')]
   \<and> node_respond (stub_env [] [] (\<lambda>s. None) noon) (flagged_state (JList [JInt 1]))
       = Inl TypeError"
proof -
  have adv: "tool_suggest_next_best_action (stub_env [] [] (\<lambda>s. None) noon)
               (JDict [(str ''channel'', JStr (str ''email''))])
             = Inr (JDict [(str ''next_best_action'', JStr nba_message)])"
    by (simp add: tool_suggest_next_best_action_def py_or_def dict_get_def lower_def
          lower_ascii_def str_def)
  have dr: "state_draft (flagged_state (JList [JInt 1]))
              = Inr (JDict [(str ''channel'', JStr (str ''email''))])"
    by (simp add: state_draft_def flagged_state_def state_get_def py_or_def dict_get_def)
  have c0: "py_or (state_get (compliance (flagged_state (JList [JInt 1])))) (JDict [])
              = JDict [(str ''flags'', JList [JInt 1]), (str ''severity'', JStr (str ''high''))]"
    by (simp add: flagged_state_def state_get_def py_or_def)
  have fl: "py_or (dict_get [(str ''flags'', JList [JInt 1]), (str ''severity'', JStr (str ''high''))]
                     (str ''flags'') JNull) (JList []) = JList [JInt 1]"
    by (simp add: py_or_def dict_get_def)
  have sv: "py_or (dict_get [(str ''flags'', JList [JInt 1]), (str ''severity'', JStr (str ''high''))]
                     (str ''severity'') JNull) (JStr (str ''low'')) = JStr (str ''high'')"
    by (simp add: py_or_def dict_get_def str_def)
  have nb: "dict_get [(str ''next_best_action'', JStr nba_message)]
              (str ''next_best_action'') (JStr []) = JStr nba_message"
    by (simp add: dict_get_def)
  show ?thesis
    by (simp add: node_respond_def dr adv c0 fl sv nb Let_def)
qed

text \<open>
  The draft is read before the flags: when its channel is a truthy value that is not a
  string (here the number 5), the advisor raises \<open>AttributeError\<close> and no message is
  composed, whatever the flags.
\<close>

lemma node_respond_channel_number:
  "node_respond (stub_env [] [] (\<lambda>s. None) noon) numbered_state = Inl AttributeError"
proof -
  have dr: "state_draft numbered_state = Inr (JDict [(str ''channel'', JInt 5)])"
    by (simp add: state_draft_def numbered_state_def state_get_def py_or_def dict_get_def)
  have adv: "tool_suggest_next_best_action (stub_env [] [] (\<lambda>s. None) noon)
               (JDict [(str ''channel'', JInt 5)]) = Inl AttributeError"
    by (simp add: tool_suggest_next_best_action_def py_or_def dict_get_def)
  show ?thesis
    by (simp add: node_respond_def dr adv)
qed

lemma node_respond_not_string:
  assumes "state_draft state = Inr (JDict draft)"
    and "\<forall>s. py_or (dict_get draft (str ''channel'') JNull) (JStr []) \<noteq> JStr s"
  shows "node_respond env state = Inl AttributeError"
proof -
  from assms(2) have "tool_suggest_next_best_action env (JDict draft) = Inl AttributeError"
    by (cases "py_or (dict_get draft (str ''channel'') JNull) (JStr [])")
       (simp_all add: tool_suggest_next_best_action_def)
  with assms(1) show ?thesis
    by (simp add: node_respond_def)
qed

section \<open>Properties of the whole pipeline\<close>

lemma lower_clock [simp]: "lower (env\<lparr>utcnow := t\<rparr>) = lower env"
  by (rule ext) (simp add: lower_def)

lemma py_format_clock [simp]: "py_format (env\<lparr>utcnow := t\<rparr>) = py_format env"
  by (rule ext) (simp add: py_format_def cong: json.case_cong)

lemma groq_chat_clock [simp]: "groq_chat (env\<lparr>utcnow := t\<rparr>) = groq_chat env"
  by (rule ext)+ (simp add: groq_chat_def cong: option.case_cong)

lemma tool_summarize_and_extract_clock [simp]:
  "tool_summarize_and_extract (env\<lparr>utcnow := t\<rparr>) = tool_summarize_and_extract env"
  by (rule ext) (simp add: tool_summarize_and_extract_def cong: option.case_cong)

lemma tool_compliance_check_llm_clock [simp]:
  "tool_compliance_check_llm (env\<lparr>utcnow := t\<rparr>) = tool_compliance_check_llm env"
  by (rule ext) (simp add: tool_compliance_check_llm_def cong: option.case_cong)

lemma tool_suggest_next_best_action_clock [simp]:
  "tool_suggest_next_best_action (env\<lparr>utcnow := t\<rparr>) = tool_suggest_next_best_action env"
  by (rule ext) (simp add: tool_suggest_next_best_action_def Let_def cong: json.case_cong)

lemma node_route_intent_clock [simp]:
  "node_route_intent (env\<lparr>utcnow := t\<rparr>) = node_route_intent env"
  by (rule ext) (simp add: node_route_intent_def Let_def cong: option.case_cong)

lemma node_compliance_clock [simp]:
  "node_compliance (env\<lparr>utcnow := t\<rparr>) = node_compliance env"
  by (rule ext) (simp add: node_compliance_def Let_def cong: option.case_cong json.case_cong)

lemma node_respond_clock [simp]:
  "node_respond (env\<lparr>utcnow := t\<rparr>) = node_respond env"
  by (rule ext) (simp add: node_respond_def Let_def cong: option.case_cong json.case_cong if_cong)

lemma draft_of_clock:
  "AList.delete (str ''interaction_datetime'') (draft_of (env\<lparr>utcnow := t\<rparr>) ents summary msg)
     = AList.delete (str ''interaction_datetime'') (draft_of env ents summary msg)"
  by (simp add: draft_of_def str_def)

lemma rel_ebind:
  assumes "rel_sum (=) A m1 m2"
    and "\<And>x y. A x y \<Longrightarrow> rel_sum (=) B (f x) (g y)"
  shows "rel_sum (=) B (ebind m1 f) (ebind m2 g)"
  using assms by (cases m1; cases m2) auto

lemma rel_same: "rel_sum (=) (=) m m"
  by (simp add: sum.rel_eq)

lemma delete_eq_dict_get:
  assumes "AList.delete k d1 = AList.delete k d2" and "k' \<noteq> k"
  shows "dict_get d1 k' x = dict_get d2 k' x"
proof -
  from assms(2) have "map_of d1 k' = map_of (AList.delete k d1) k'"
    by simp
  also from assms have "\<dots> = map_of d2 k'"
    by simp
  finally show ?thesis
    by (simp add: dict_get_def)
qed

lemma state_draft_single:
  "extracted s = Some (JDict [(str ''draft'', JDict d)]) \<Longrightarrow> state_draft s = Inr (JDict d)"
  by (simp add: state_draft_def state_get_def py_or_def dict_get_def)

lemma node_extract_rel:
  "rel_sum (=) agree_but_datetime
     (node_extract (env\<lparr>utcnow := t1\<rparr>) st) (node_extract (env\<lparr>utcnow := t2\<rparr>) st)"
proof (cases "user_message st")
  case None
  then show ?thesis by (simp add: node_extract_def)
next
  case (Some msg)
  show ?thesis
  proof (cases "tool_summarize_and_extract env msg")
    case (Inl e)
    with Some show ?thesis by (simp add: node_extract_def)
  next
    case (Inr result)
    show ?thesis
    proof (cases result)
      case (JDict r)
      let ?summary = "py_or (dict_get r (str ''summary'') JNull) (JStr [])"
      show ?thesis
      proof (cases "py_or (dict_get r (str ''entities'') JNull) (JDict [])")
        case ents: (JDict ents)
        have "AList.delete (str ''interaction_datetime'') (draft_of (env\<lparr>utcnow := t1\<rparr>) ents ?summary msg)
            = AList.delete (str ''interaction_datetime'') (draft_of (env\<lparr>utcnow := t2\<rparr>) ents ?summary msg)"
          by (simp add: draft_of_clock)
        with Some Inr JDict ents show ?thesis
          by (simp add: node_extract_def agree_but_datetime_def)
      qed (use Some Inr JDict in \<open>simp_all add: node_extract_def\<close>)
    qed (use Some Inr in \<open>simp_all add: node_extract_def\<close>)
  qed
qed

lemma node_compliance_rel:
  assumes "agree_but_datetime s1 s2"
  shows "rel_sum (=) agree_but_datetime (node_compliance env s1) (node_compliance env s2)"
proof -
  from assms obtain d1 d2 where
    e1: "extracted s1 = Some (JDict [(str ''draft'', JDict d1)])" and
    e2: "extracted s2 = Some (JDict [(str ''draft'', JDict d2)])" and
    del: "AList.delete (str ''interaction_datetime'') d1
            = AList.delete (str ''interaction_datetime'') d2" and
    rest: "s1\<lparr>extracted := None\<rparr> = s2\<lparr>extracted := None\<rparr>"
    by (auto simp: agree_but_datetime_def)
  have n: "dict_get d1 (str ''raw_notes'') (JStr []) = dict_get d2 (str ''raw_notes'') (JStr [])"
    using del by (rule delete_eq_dict_get) (simp add: str_def)
  have m: "dict_get d1 (str ''ai_summary'') (JStr []) = dict_get d2 (str ''ai_summary'') (JStr [])"
    using del by (rule delete_eq_dict_get) (simp add: str_def)
  have ne: "str ''compliance_flags_json'' \<noteq> str ''interaction_datetime''"
    by (simp add: str_def)
  have upd: "AList.delete (str ''interaction_datetime'') (AList.update (str ''compliance_flags_json'') v d1)
           = AList.delete (str ''interaction_datetime'') (AList.update (str ''compliance_flags_json'') v d2)"
    for v
    using del ne by (simp add: delete_update)
  have keep: "s1\<lparr>compliance := c, extracted := None\<rparr> = s2\<lparr>compliance := c, extracted := None\<rparr>" for c
    using rest by (metis AgentState.update_convs(4,5) AgentState.surjective AgentState.select_convs)
  show ?thesis
    unfolding node_compliance_def
    by (simp add: state_draft_single e1 e2 n m Let_def)
       (intro rel_ebind [where A = "(=)"] rel_same,
         simp add: agree_but_datetime_def upd keep)
qed

lemma node_respond_rel:
  assumes "agree_but_datetime s1 s2"
  shows "rel_sum (=) agree_but_datetime (node_respond env s1) (node_respond env s2)"
proof -
  from assms obtain d1 d2 where
    e1: "extracted s1 = Some (JDict [(str ''draft'', JDict d1)])" and
    e2: "extracted s2 = Some (JDict [(str ''draft'', JDict d2)])" and
    del: "AList.delete (str ''interaction_datetime'') d1
            = AList.delete (str ''interaction_datetime'') d2" and
    rest: "s1\<lparr>extracted := None\<rparr> = s2\<lparr>extracted := None\<rparr>"
    by (auto simp: agree_but_datetime_def)
  have "dict_get d1 (str ''channel'') JNull = dict_get d2 (str ''channel'') JNull"
    using del by (rule delete_eq_dict_get) (simp add: str_def)
  then have adv: "tool_suggest_next_best_action env (JDict d1)
                    = tool_suggest_next_best_action env (JDict d2)"
    by (simp add: tool_suggest_next_best_action_def)
  from rest have c: "compliance s1 = compliance s2"
    by (metis AgentState.select_convs(5) AgentState.surjective AgentState.update_convs(4))
  have keep: "s1\<lparr>assistant_message := a, extracted := None\<rparr>
                = s2\<lparr>assistant_message := a, extracted := None\<rparr>" for a
    using rest by (metis AgentState.update_convs(4,6) AgentState.surjective AgentState.select_convs)
  have final: "agree_but_datetime (s1\<lparr>assistant_message := a\<rparr>) (s2\<lparr>assistant_message := a\<rparr>)" for a
    using e1 e2 del keep [of a] by (simp add: agree_but_datetime_def)
  show ?thesis
    unfolding node_respond_def
    by (simp add: state_draft_single e1 e2 adv c Let_def)
       (intro rel_ebind [where A = "(=)"]; simp add: final sum.rel_eq)
qed

lemma rel_sum_cases:
  assumes "rel_sum (=) A r1 r2"
  obtains (raised) e where "r1 = Inl e" and "r2 = Inl e"
  | (returned) x y where "r1 = Inr x" and "r2 = Inr y" and "A x y"
  using assms by (cases r1; cases r2) auto

lemma agent_app_invoke_rel:
  "rel_sum (=) agree_but_datetime
     (agent_app_invoke (env\<lparr>utcnow := t1\<rparr>) st) (agent_app_invoke (env\<lparr>utcnow := t2\<rparr>) st)"
proof (cases "node_route_intent env st")
  case (Inl e)
  then show ?thesis by (simp add: agent_app_invoke_def)
next
  case (Inr s)
  have "rel_sum (=) agree_but_datetime
          (ebind (node_extract (env\<lparr>utcnow := t1\<rparr>) s)
             (\<lambda>s2. ebind (node_compliance env s2) (node_respond env)))
          (ebind (node_extract (env\<lparr>utcnow := t2\<rparr>) s)
             (\<lambda>s2. ebind (node_compliance env s2) (node_respond env)))"
  proof (rule rel_ebind [OF node_extract_rel])
    fix x y
    assume "agree_but_datetime x y"
    then have "rel_sum (=) agree_but_datetime (node_compliance env x) (node_compliance env y)"
      by (rule node_compliance_rel)
    then show "rel_sum (=) agree_but_datetime
                 (ebind (node_compliance env x) (node_respond env))
                 (ebind (node_compliance env y) (node_respond env))"
      by (rule rel_ebind) (rule node_respond_rel)
  qed
  with Inr show ?thesis by (simp add: agent_app_invoke_def)
qed

text \<open>
  Claim C4, as the code has it. Two runs of \<open>agent_chat\<close> on the same request, with the
  same completion service and libraries, either raise the same exception or return the
  same assistant message and drafts that are equal in every entry other than
  \<open>interaction_datetime\<close>, whatever the clock reads at each run.
\<close>

theorem agent_chat_rerun:
  "map_sum id undated (agent_chat (env\<lparr>utcnow := t1\<rparr>) req)
     = map_sum id undated (agent_chat (env\<lparr>utcnow := t2\<rparr>) req)"
proof -
  let ?st = "\<lparr>thread_id = Some (case req_thread_id req of
                                   None \<Rightarrow> str ''default''
                                 | Some t \<Rightarrow> if t \<noteq> [] then t else str ''default''),
               user_message = Some (message req),
               intent = None, extracted = None, compliance = None,
               assistant_message = None\<rparr>"
  have "rel_sum (=) agree_but_datetime
          (agent_app_invoke (env\<lparr>utcnow := t1\<rparr>) ?st) (agent_app_invoke (env\<lparr>utcnow := t2\<rparr>) ?st)"
    by (rule agent_app_invoke_rel)
  then show ?thesis
  proof (cases rule: rel_sum_cases)
    case (raised e)
    then show ?thesis by (simp add: agent_chat_def)
  next
    case (returned o1 o2)
    from returned(3) obtain d1 d2 where
      e1: "extracted o1 = Some (JDict [(str ''draft'', JDict d1)])" and
      e2: "extracted o2 = Some (JDict [(str ''draft'', JDict d2)])" and
      del: "AList.delete (str ''interaction_datetime'') d1
              = AList.delete (str ''interaction_datetime'') d2" and
      rest: "o1\<lparr>extracted := None\<rparr> = o2\<lparr>extracted := None\<rparr>"
      by (auto simp: agree_but_datetime_def)
    from rest have a: "assistant_message o1 = assistant_message o2"
      by (metis AgentState.select_convs(6) AgentState.surjective AgentState.update_convs(4))
    have dict: "py_or (JDict d) (JDict []) = JDict d" for d
      by (cases d) (simp_all add: py_or_def)
    have r1: "agent_chat (env\<lparr>utcnow := t1\<rparr>) req
                = Inr (JDict [(str ''assistant_message'',
                                 JStr (case assistant_message o2 of
                                         None \<Rightarrow> str ''Done.'' | Some m \<Rightarrow> m)),
                              (str ''draft_interaction'', JDict d1)])"
      using returned(1) e1 a by (simp add: agent_chat_def state_get_def dict dict_get_def)
    have r2: "agent_chat (env\<lparr>utcnow := t2\<rparr>) req
                = Inr (JDict [(str ''assistant_message'',
                                 JStr (case assistant_message o2 of
                                         None \<Rightarrow> str ''Done.'' | Some m \<Rightarrow> m)),
                              (str ''draft_interaction'', JDict d2)])"
      using returned(2) e2 by (simp add: agent_chat_def state_get_def dict dict_get_def)
    from del show ?thesis
      by (simp add: r1 r2 undated_def)
  qed
qed

lemma isoformat_noon: "isoformat noon = str ''2024-05-17T12:00:00''"
  by (simp add: isoformat_def noon_def zpad_def dec.simps str_def)

lemma isoformat_later: "isoformat later = str ''2024-05-17T12:05:00''"
  by (simp add: isoformat_def later_def noon_def zpad_def dec.simps str_def)

lemma stub_run:
  "agent_chat (stub_env (str ''k'') (str ''I cannot answer'') (\<lambda>s. None) t) stub_request
     = Inr (JDict [(str ''assistant_message'', JStr (ack_line @ nba_line nba_visit @ closing_line)),
                   (str ''draft_interaction'', JDict (stub_draft (isoformat t)))])"
proof -
  let ?E = "stub_env (str ''k'') (str ''I cannot answer'') (\<lambda>s. None) t"
  let ?msg = "str ''Met Dr. Smith''"
  let ?d2 = "(stub_draft (isoformat t))[14 := (str ''compliance_flags_json'', JStr [])]"
  let ?c = "JDict [(str ''flags'', JList [JStr (str ''parse_error'')]),
                   (str ''severity'', JStr (str ''low'')),
                   (str ''notes'', JStr (str ''I cannot answer''))]"
  let ?reply = "ack_line @ nba_line nba_visit @ closing_line"
  let ?s0 = "\<lparr>thread_id = Some (str ''default''), user_message = Some ?msg,
              intent = None, extracted = None, compliance = None, assistant_message = None\<rparr>"
  let ?s1 = "\<lparr>thread_id = Some (str ''default''), user_message = Some ?msg,
              intent = Some (str ''log''), extracted = None, compliance = None,
              assistant_message = None\<rparr>"
  let ?s2 = "\<lparr>thread_id = Some (str ''default''), user_message = Some ?msg,
              intent = Some (str ''log''),
              extracted = Some (JDict [(str ''draft'', JDict ?d2)]),
              compliance = None, assistant_message = None\<rparr>"
  let ?s3 = "\<lparr>thread_id = Some (str ''default''), user_message = Some ?msg,
              intent = Some (str ''log''),
              extracted = Some (JDict [(str ''draft'', JDict (stub_draft (isoformat t)))]),
              compliance = Some ?c, assistant_message = None\<rparr>"
  let ?s4 = "\<lparr>thread_id = Some (str ''default''), user_message = Some ?msg,
              intent = Some (str ''log''),
              extracted = Some (JDict [(str ''draft'', JDict (stub_draft (isoformat t)))]),
              compliance = Some ?c, assistant_message = Some ?reply\<rparr>"
  have h_chat: "groq_chat ?E system user model = Inr (str ''I cannot answer'')" for system user model
    by (simp add: groq_chat_def stub_env_eq stub_completion_def str_def)
  have h_loads: "json_loads ?E out = None" for out
    by (simp add: stub_env_eq)
  have h_dumps: "json_dumps ?E v = str ''<json>''" for v
    by (simp add: stub_env_eq)
  have h_now: "utcnow ?E = t"
    by (simp add: stub_env_eq)
  have h_route: "node_route_intent ?E ?s0 = Inr ?s1"
    by (simp add: node_route_intent_def lower_def lower_ascii_def str_def)
  have h_tool: "tool_summarize_and_extract ?E ?msg
                = Inr (JDict [(str ''summary'', JStr ?msg), (str ''entities'', JDict [])])"
    by (simp add: tool_summarize_and_extract_def h_chat h_loads) (simp add: str_def)
  have h_draft: "draft_of ?E [] (JStr ?msg) ?msg = ?d2"
    by (simp add: draft_of_def stub_draft_def dict_get_def py_or_def h_dumps h_now)
  have h_extract: "node_extract ?E ?s1 = Inr ?s2"
    by (simp add: node_extract_def h_tool dict_get_def py_or_def h_draft) (simp add: str_def)
  have h_sd2: "state_draft ?s2 = Inr (JDict ?d2)"
    by (rule state_draft_single) simp
  have h_notes: "dict_get ?d2 (str ''raw_notes'') (JStr []) = JStr ?msg"
    by (simp add: stub_draft_def dict_get_def str_def)
  have h_summ: "dict_get ?d2 (str ''ai_summary'') (JStr []) = JStr ?msg"
    by (simp add: stub_draft_def dict_get_def str_def)
  have h_check: "tool_compliance_check_llm ?E arg = Inr ?c" for arg
    by (simp add: tool_compliance_check_llm_def h_chat h_loads) (simp add: str_def)
  have h_upd: "AList.update (str ''compliance_flags_json'') (JStr (str ''<json>'')) ?d2
               = stub_draft (isoformat t)"
    by (simp add: stub_draft_def str_def)
  have h_compl: "node_compliance ?E ?s2 = Inr ?s3"
    by (simp add: node_compliance_def h_sd2 h_notes h_summ h_check h_dumps h_upd Let_def)
  have h_sd3: "state_draft ?s3 = Inr (JDict (stub_draft (isoformat t)))"
    by (rule state_draft_single) simp
  have h_adv: "tool_suggest_next_best_action ?E (JDict (stub_draft (isoformat t)))
               = Inr (JDict [(str ''next_best_action'', JStr nba_visit)])"
    by (simp add: tool_suggest_next_best_action_def stub_draft_def dict_get_def py_or_def
          lower_def lower_ascii_def str_def)
  have h_respond: "node_respond ?E ?s3 = Inr ?s4"
    by (simp add: node_respond_def h_sd3 h_adv dict_get_def py_or_def state_get_def py_format_def Let_def)
  have h_invoke: "agent_app_invoke ?E ?s0 = Inr ?s4"
    by (simp add: agent_app_invoke_def h_route h_extract h_compl h_respond)
  show ?thesis
    by (simp add: agent_chat_def stub_request_def h_invoke state_get_def)
       (simp add: py_or_def dict_get_def stub_draft_def)
qed

text \<open>
  The draft itself is not the same in both runs: \<open>interaction_datetime\<close> is the clock
  reading of the run. With the same stub and the same message, a run at 12:00:00 and a run
  at 12:05:00 return different drafts.
\<close>

theorem agent_chat_rerun_differs:
  "agent_chat (stub_env (str ''k'') (str ''I cannot answer'') (\<lambda>s. None) noon) stub_request
     = Inr (JDict [(str ''assistant_message'', JStr (ack_line @ nba_line nba_visit @ closing_line)),
                   (str ''draft_interaction'', JDict (stub_draft (str ''2024-05-17T12:00:00'')))])
   \<and> agent_chat (stub_env (str ''k'') (str ''I cannot answer'') (\<lambda>s. None) later) stub_request
     = Inr (JDict [(str ''assistant_message'', JStr (ack_line @ nba_line nba_visit @ closing_line)),
                   (str ''draft_interaction'', JDict (stub_draft (str ''2024-05-17T12:05:00'')))])
   \<and> agent_chat (stub_env (str ''k'') (str ''I cannot answer'') (\<lambda>s. None) noon) stub_request
     \<noteq> agent_chat (stub_env (str ''k'') (str ''I cannot answer'') (\<lambda>s. None) later) stub_request"
proof -
  have "stub_draft (str ''2024-05-17T12:00:00'') \<noteq> stub_draft (str ''2024-05-17T12:05:00'')"
    by (simp add: stub_draft_def str_def)
  then show ?thesis
    by (simp add: stub_run isoformat_noon isoformat_later)
qed

text \<open>
  Claim C9. Whether \<open>groq_chat\<close> can be called at all is settled when the process starts:
  in a process started with the variable \<open>GROQ_API_KEY\<close> missing or empty, and in no other,
  \<open>groq_chat\<close> raises the HTTP 500 exception \<open>GROQ_API_KEY not set on backend\<close>, on every
  call and whatever the arguments, and \<open>agent_chat\<close> ends with that exception. A call
  reads nothing but the client bound at the start: with no client it raises that
  exception whatever the process holds otherwise.
\<close>

theorem groq_chat_without_key:
  "(groq_chat (startup environ Groq lib) system user model
       = Inl (HTTPException 500 (str ''GROQ_API_KEY not set on backend'')))
     = (os_getenv environ (str ''GROQ_API_KEY'') [] = [])
   \<and> (os_getenv environ (str ''GROQ_API_KEY'') [] = [] \<longrightarrow>
        agent_chat (startup environ Groq lib) req
          = Inl (HTTPException 500 (str ''GROQ_API_KEY not set on backend'')))
   \<and> (client env = None \<longrightarrow>
        groq_chat env system user model
          = Inl (HTTPException 500 (str ''GROQ_API_KEY not set on backend''))
        \<and> agent_chat env req
          = Inl (HTTPException 500 (str ''GROQ_API_KEY not set on backend'')))"
proof -
  let ?P = "startup environ Groq lib"
  have cl: "client ?P = None \<longleftrightarrow> os_getenv environ (str ''GROQ_API_KEY'') [] = []"
    by (simp add: startup_def Let_def)
  have a: "(groq_chat ?P system user model
              = Inl (HTTPException 500 (str ''GROQ_API_KEY not set on backend'')))
            = (os_getenv environ (str ''GROQ_API_KEY'') [] = [])"
    unfolding cl [symmetric] by (simp add: groq_chat_def split: option.splits)
  have b: "groq_chat e system user model
             = Inl (HTTPException 500 (str ''GROQ_API_KEY not set on backend''))
           \<and> agent_chat e req
             = Inl (HTTPException 500 (str ''GROQ_API_KEY not set on backend''))"
    if "client e = None" for e
  proof -
    from that have g: "groq_chat e s u m
                         = Inl (HTTPException 500 (str ''GROQ_API_KEY not set on backend''))" for s u m
      by (simp add: groq_chat_def)
    have t: "tool_summarize_and_extract e msg
               = Inl (HTTPException 500 (str ''GROQ_API_KEY not set on backend''))" for msg
      by (simp add: tool_summarize_and_extract_def g)
    have x: "node_extract e st
               = Inl (HTTPException 500 (str ''GROQ_API_KEY not set on backend''))"
      if "user_message st = Some msg" for st msg
      using that by (simp add: node_extract_def t)
    have "agent_chat e req = Inl (HTTPException 500 (str ''GROQ_API_KEY not set on backend''))"
      by (simp add: agent_chat_def agent_app_invoke_def node_route_intent_def Let_def x)
    with g show ?thesis by simp
  qed
  from b [of ?P] cl
  have c: "os_getenv environ (str ''GROQ_API_KEY'') [] = [] \<longrightarrow>
        agent_chat ?P req = Inl (HTTPException 500 (str ''GROQ_API_KEY not set on backend''))"
    by simp
  from a b [of env] c show ?thesis by blast
qed

theorem groq_chat_without_key_witness:
  "os_getenv (\<lambda>name. None) (str ''GROQ_API_KEY'') [] = []
   \<and> client (stub_env [] (str ''I cannot answer'') (\<lambda>s. None) noon) = None
   \<and> groq_chat (startup (\<lambda>name. None) (\<lambda>k. stub_completion (str ''I cannot answer''))
                  (stub_lib (\<lambda>s. None) noon))
        extract_system (extract_prompt (str ''Met Dr. Smith'')) (str ''gemma2-9b-it'')
       = Inl (HTTPException 500 (str ''GROQ_API_KEY not set on backend''))
   \<and> agent_chat (startup (\<lambda>name. None) (\<lambda>k. stub_completion (str ''I cannot answer''))
                   (stub_lib (\<lambda>s. None) noon)) stub_request
       = Inl (HTTPException 500 (str ''GROQ_API_KEY not set on backend''))
   \<and> groq_chat (stub_env [] (str ''I cannot answer'') (\<lambda>s. None) noon)
        extract_system (extract_prompt (str ''Met Dr. Smith'')) (str ''gemma2-9b-it'')
       = Inl (HTTPException 500 (str ''GROQ_API_KEY not set on backend''))
   \<and> agent_chat (stub_env [] (str ''I cannot answer'') (\<lambda>s. None) noon) stub_request
       = Inl (HTTPException 500 (str ''GROQ_API_KEY not set on backend''))"
proof -
  have k: "os_getenv (\<lambda>name. None) (str ''GROQ_API_KEY'') [] = []"
    by (simp add: os_getenv_def)
  have c: "client (stub_env [] (str ''I cannot answer'') (\<lambda>s. None) noon) = None"
    by (simp add: stub_env_eq)
  from groq_chat_without_key [of "\<lambda>name. None" "\<lambda>k. stub_completion (str ''I cannot answer'')"
         "stub_lib (\<lambda>s. None) noon" extract_system "extract_prompt (str ''Met Dr. Smith'')"
         "str ''gemma2-9b-it''" stub_request
         "stub_env [] (str ''I cannot answer'') (\<lambda>s. None) noon"] k c
  show ?thesis by simp
qed

end
